theory Spec2Isabelle
  imports Main "HOL-Library.Word"
begin

unbundle bit_operations_syntax

section \<open>Data model\<close>

subsection \<open>Generic payloads and errors\<close>

text \<open>
  A generic configuration payload is Go's \<open>map[string]any\<close>. It is kept as an association
  list; \<open>len(m) > 0\<close> is non-emptiness of that list.
\<close>

datatype jv =
    JNull
  | JBool bool
  | JNum int
  | JStr string
  | JList "jv list"
  | JMap "(string \<times> jv) list"

type_synonym payload = "(string \<times> jv) list"

text \<open>
  Go errors. \<open>External\<close> is an error value handed back by a library, the store or the
  operating system; \<open>StrictDecodingError\<close> is the unknown-field error of the unstructured
  converter; \<open>Errorf fmt args cause\<close> is \<open>fmt.Errorf(fmt, args..., cause)\<close> with the cause
  wrapped by \<open>%w\<close>. The format string is kept verbatim and is not interpreted.
\<close>

datatype error =
    External string
  | StrictDecodingError "string list"
  | Errorf string "string list" error

subsection \<open>Upstream resources (package \<open>resources/k8s\<close>)\<close>

record AdmissionPluginSpec =
  Name :: string
  Configuration :: payload

record AdmissionControlConfigSpec =
  Config_admission :: "AdmissionPluginSpec list"

record AuditPolicyConfigSpec =
  Config_audit :: payload

record StructuredAuthenticationConfigSpec =
  Config_authn :: payload

record StructuredAuthorizationConfigSpec =
  Config_authz :: payload

record SchedulerConfigSpec =
  Config_scheduler :: payload

text \<open>
  A resource as the controller sees it: its typed spec and the string form of its version,
  \<open>res.Metadata().Version().String()\<close>.
\<close>

record 'a resource =
  TypedSpec :: 'a
  Version_String :: string

record ConfigStatusSpec =
  Ready :: bool
  Version :: string

subsection \<open>Target documents\<close>

text \<open>
  Every target document embeds \<open>metav1.TypeMeta\<close>; record extension plays the role of Go's
  struct embedding, so \<open>cfg.APIVersion\<close> and \<open>cfg.Kind\<close> are fields of each document.
  The fields the controller never touches are carried along as one opaque value.
\<close>

record TypeMeta =
  Kind :: string
  APIVersion :: string

record runtime_Unknown =
  Raw :: string

record AdmissionPluginConfiguration =
  plugin_Name :: string
  plugin_Path :: string
  plugin_Configuration :: "runtime_Unknown option"

text \<open>A Go slice is \<open>None\<close> when nil and \<open>Some xs\<close> otherwise, so that an empty, non-nil
  slice (\<open>Some []\<close>) differs from an absent one.\<close>

record AdmissionConfiguration = TypeMeta +
  Plugins :: "AdmissionPluginConfiguration list option"

record Policy = TypeMeta +
  Policy_fields :: jv

record AuthenticationConfiguration = TypeMeta +
  AuthenticationConfiguration_fields :: jv

record AuthorizationConfiguration = TypeMeta +
  AuthorizationConfiguration_fields :: jv

record ClientConnectionConfiguration =
  Kubeconfig :: string
  ClientConnection_fields :: jv

record KubeSchedulerConfiguration = TypeMeta +
  ClientConnection :: ClientConnectionConfiguration
  KubeSchedulerConfiguration_fields :: jv

datatype runtime_Object =
    AdmissionConfigurationObj AdmissionConfiguration
  | PolicyObj Policy
  | AuthenticationConfigurationObj AuthenticationConfiguration
  | AuthorizationConfigurationObj AuthorizationConfiguration
  | KubeSchedulerConfigurationObj KubeSchedulerConfiguration

subsection \<open>Effects\<close>

text \<open>
  What an iteration does to the outside world, in the order it happens: the three
  \<open>os\<close> calls that succeeded, and what was printed on standard output.
  \<open>os.FileMode\<close> is a 32-bit word; \<open>0o755 = 493\<close> and \<open>0o400 = 256\<close>.
\<close>

type_synonym FileMode = "32 word"

datatype effect =
    MkdirAll string FileMode
  | WriteFile string string FileMode
  | Chown string int int
  | Println payload

record world =
  effects :: "effect list"
  ConfigStatus :: "ConfigStatusSpec option"
  restart_backoff_resets :: nat

section \<open>External collaborators\<close>

subsection \<open>\<open>path/filepath\<close>\<close>

fun split_path :: "string \<Rightarrow> string list" where
  "split_path [] = [[]]"
| "split_path (c # cs) =
     (if c = CHR ''/'' then [] # split_path cs
      else (case split_path cs of [] \<Rightarrow> [[c]] | x # xs \<Rightarrow> (c # x) # xs))"

fun join_sep :: "string list \<Rightarrow> string" where
  "join_sep [] = []"
| "join_sep [x] = x"
| "join_sep (x # y # ys) = x @ CHR ''/'' # join_sep (y # ys)"

definition Clean_step :: "bool \<Rightarrow> string list \<Rightarrow> string \<Rightarrow> string list" where
  "Clean_step rooted out c =
     (if c = [] \<or> c = ''.'' then out
      else if c = ''..'' then
        (if out \<noteq> [] \<and> last out \<noteq> ''..'' then butlast out
         else if rooted then out
         else out @ [c])
      else out @ [c])"

definition filepath_Clean :: "string \<Rightarrow> string" where
  "filepath_Clean p =
     (if p = [] then ''.''
      else
        (let rooted = (hd p = CHR ''/'');
             body = join_sep (foldl (Clean_step rooted) [] (split_path p))
         in if rooted then CHR ''/'' # body
            else if body = [] then ''.'' else body))"

definition filepath_Join :: "string list \<Rightarrow> string" where
  "filepath_Join elem =
     (case dropWhile (\<lambda>e. e = []) elem of
        [] \<Rightarrow> []
      | e # es \<Rightarrow> filepath_Clean (join_sep (e # es)))"

subsection \<open>The unstructured converter\<close>

text \<open>
  \<open>runtime.DefaultUnstructuredConverter.FromUnstructuredWithValidation(u, &cfg, strict)\<close>
  belongs to the Kubernetes library. The target type of \<open>cfg\<close> selects a schema; a schema
  is given here by its lenient decoder and by the list of payload fields that do not map
  to the target type. The library decodes first; with \<open>returnUnknownFields\<close> set and
  unknown fields present it returns a strict decoding error, otherwise the decoded object.
\<close>

record 'doc schema =
  decode :: "payload \<Rightarrow> error + 'doc"
  unknown_fields :: "payload \<Rightarrow> string list"

definition FromUnstructuredWithValidation ::
  "'doc schema \<Rightarrow> payload \<Rightarrow> bool \<Rightarrow> error + 'doc" where
  "FromUnstructuredWithValidation sch u returnUnknownFields =
     (case decode sch u of
        Inl e \<Rightarrow> Inl e
      | Inr obj \<Rightarrow>
          if returnUnknownFields \<and> unknown_fields sch u \<noteq> []
          then Inl (StrictDecodingError (unknown_fields sch u))
          else Inr obj)"

subsection \<open>Libraries, operating system, store\<close>

text \<open>
  The remaining collaborators are parameters: \<open>json.Marshal\<close>, the four target schemas,
  the YAML serializer, the operating system (which may refuse a call, depending on what
  happened before) and the store's answer to the status update.
\<close>

record env =
  json_Marshal :: "payload \<Rightarrow> error + string"
  Policy_schema :: "Policy schema"
  AuthenticationConfiguration_schema :: "AuthenticationConfiguration schema"
  AuthorizationConfiguration_schema :: "AuthorizationConfiguration schema"
  KubeSchedulerConfiguration_schema :: "KubeSchedulerConfiguration schema"
  serializer_Encode :: "runtime_Object \<Rightarrow> error + string"
  os_error :: "effect list \<Rightarrow> effect \<Rightarrow> error option"
  WriterModify_error :: "world \<Rightarrow> error option"

text \<open>Package \<open>machinery/constants\<close> is not part of the sources at hand; the constants the
  controller uses are parameters.\<close>

record constants =
  KubernetesAPIServerConfigDir :: string
  KubernetesAPIServerRunUser :: int
  KubernetesAPIServerRunGroup :: int
  KubernetesSchedulerConfigDir :: string
  KubernetesSchedulerRunUser :: int
  KubernetesSchedulerRunGroup :: int
  KubernetesSchedulerSecretsDir :: string

section \<open>Target schema converters\<close>

text \<open>
  Each converter returns a closure \<open>func() (runtime.Object, error)\<close>. A closure is run by
  applying it to \<open>()\<close>; it yields what it printed and its result.
\<close>

type_synonym thunk = "unit \<Rightarrow> effect list \<times> (error + runtime_Object)"

definition SchemeGroupVersion_String :: string where
  "SchemeGroupVersion_String = ''apiserver.config.k8s.io/v1''"

definition append_slice :: "'a list option \<Rightarrow> 'a \<Rightarrow> 'a list option" where
  "append_slice s x = Some ((case s of None \<Rightarrow> [] | Some xs \<Rightarrow> xs) @ [x])"

fun admission_plugins ::
  "env \<Rightarrow> AdmissionPluginSpec list \<Rightarrow> AdmissionConfiguration
     \<Rightarrow> error + AdmissionConfiguration" where
  "admission_plugins env [] cfg = Inr cfg"
| "admission_plugins env (plugin # rest) cfg =
     (case json_Marshal env (Configuration plugin) of
        Inl e \<Rightarrow>
          Inl (Errorf ''error marshaling configuration for plugin %q: %w'' [Name plugin] e)
      | Inr raw \<Rightarrow>
          admission_plugins env rest
            (cfg\<lparr>Plugins := append_slice (Plugins cfg)
               \<lparr>plugin_Name = Name plugin, plugin_Path = [],
                plugin_Configuration = Some \<lparr>Raw = raw\<rparr>\<rparr>\<rparr>))"

definition admissionControlConfig :: "env \<Rightarrow> AdmissionControlConfigSpec \<Rightarrow> thunk" where
  "admissionControlConfig env spec = (\<lambda>_.
     (let cfg = \<lparr>Kind = [], APIVersion = [], Plugins = None\<rparr>;
          cfg = cfg\<lparr>APIVersion := SchemeGroupVersion_String\<rparr>;
          cfg = cfg\<lparr>Kind := ''AdmissionConfiguration''\<rparr>;
          cfg = cfg\<lparr>Plugins := Some []\<rparr>
      in case admission_plugins env (Config_admission spec) cfg of
           Inl e \<Rightarrow> ([], Inl e)
         | Inr cfg \<Rightarrow> ([], Inr (AdmissionConfigurationObj cfg))))"

definition auditPolicyConfig :: "env \<Rightarrow> AuditPolicyConfigSpec \<Rightarrow> thunk" where
  "auditPolicyConfig env spec = (\<lambda>_.
     (case FromUnstructuredWithValidation (Policy_schema env) (Config_audit spec) True of
        Inl e \<Rightarrow> ([], Inl (Errorf ''error unmarshaling audit policy configuration: %w'' [] e))
      | Inr cfg \<Rightarrow> ([], Inr (PolicyObj cfg))))"

definition structuredAuthenticationConfig ::
  "env \<Rightarrow> StructuredAuthenticationConfigSpec \<Rightarrow> thunk" where
  "structuredAuthenticationConfig env spec = (\<lambda>_.
     (let out = [Println (Config_authn spec)]
      in case FromUnstructuredWithValidation (AuthenticationConfiguration_schema env)
                (Config_authn spec) True of
           Inl e \<Rightarrow>
             (out, Inl (Errorf
                ''error unmarshaling structured authentication configuration: %w'' [] e))
         | Inr cfg \<Rightarrow>
             (out, Inr (AuthenticationConfigurationObj
                (cfg\<lparr>APIVersion := ''apiserver.config.k8s.io/v1beta1'',
                     Kind := ''AuthenticationConfiguration''\<rparr>)))))"

definition structuredAuthorizationConfig ::
  "env \<Rightarrow> StructuredAuthorizationConfigSpec \<Rightarrow> thunk" where
  "structuredAuthorizationConfig env spec = (\<lambda>_.
     (case FromUnstructuredWithValidation (AuthorizationConfiguration_schema env)
             (Config_authz spec) True of
        Inl e \<Rightarrow>
          ([], Inl (Errorf
             ''error unmarshaling structured authorization configuration: %w'' [] e))
      | Inr cfg \<Rightarrow>
          ([], Inr (AuthorizationConfigurationObj
             (cfg\<lparr>APIVersion := ''apiserver.config.k8s.io/v1beta1'',
                  Kind := ''AuthorizationConfiguration''\<rparr>)))))"

definition schedulerConfig :: "env \<Rightarrow> constants \<Rightarrow> SchedulerConfigSpec \<Rightarrow> thunk" where
  "schedulerConfig env c spec = (\<lambda>_.
     (case FromUnstructuredWithValidation (KubeSchedulerConfiguration_schema env)
             (Config_scheduler spec) False of
        Inl e \<Rightarrow> ([], Inl (Errorf ''error unmarshaling scheduler configuration: %w'' [] e))
      | Inr cfg \<Rightarrow>
          ([], Inr (KubeSchedulerConfigurationObj
             (cfg\<lparr>APIVersion := ''kubescheduler.config.k8s.io/v1'',
                  Kind := ''KubeSchedulerConfiguration'',
                  ClientConnection := (ClientConnection cfg)
                    \<lparr>Kubeconfig :=
                       filepath_Join [KubernetesSchedulerSecretsDir c, ''kubeconfig'']\<rparr>\<rparr>)))))"

section \<open>The reconciliation loop\<close>

record configFile =
  filename :: string
  f :: thunk

record pod =
  name :: string
  directory :: string
  uid :: int
  gid :: int
  configs :: "configFile list"

datatype 'a get_result = Found 'a | NotFound | GetError error

text \<open>What \<open>safe.ReaderGetByID\<close> answers for each of the five inputs during one iteration.\<close>

record inputs =
  get_AdmissionControlConfig :: "AdmissionControlConfigSpec resource get_result"
  get_AuditPolicyConfig :: "AuditPolicyConfigSpec resource get_result"
  get_StructuredAuthenticationConfig ::
    "StructuredAuthenticationConfigSpec resource get_result"
  get_StructuredAuthorizationConfig ::
    "StructuredAuthorizationConfigSpec resource get_result"
  get_SchedulerConfig :: "SchedulerConfigSpec resource get_result"

text \<open>An \<open>os\<close> call either fails and leaves no trace, or succeeds and is recorded.\<close>

definition os_call :: "env \<Rightarrow> effect \<Rightarrow> world \<Rightarrow> error option \<times> world" where
  "os_call env ef w =
     (case os_error env (effects w) ef of
        Some e \<Rightarrow> (Some e, w)
      | None \<Rightarrow> (None, w\<lparr>effects := effects w @ [ef]\<rparr>))"

text \<open>The inner loop of \<open>Run\<close>, lines 219 to 240: one pod's files, in order.\<close>

fun render_configs ::
  "env \<Rightarrow> pod \<Rightarrow> configFile list \<Rightarrow> world \<Rightarrow> error option \<times> world" where
  "render_configs env pod [] w = (None, w)"
| "render_configs env pod (configFile # rest) w =
     (case f configFile () of (out, r) \<Rightarrow>
        (let w = w\<lparr>effects := effects w @ out\<rparr> in
         case r of
           Inl err \<Rightarrow>
             (Some (Errorf ''error generating configuration %q for %q: %w''
                      [filename configFile, name pod] err), w)
         | Inr obj \<Rightarrow>
             (case serializer_Encode env obj of
                Inl err \<Rightarrow>
                  (Some (Errorf ''error marshaling configuration %q for %q: %w''
                           [filename configFile, name pod] err), w)
              | Inr buf \<Rightarrow>
                  (case os_call env
                          (WriteFile (filepath_Join [directory pod, filename configFile])
                             buf 256) w of
                     (Some err, w) \<Rightarrow>
                       (Some (Errorf ''error writing configuration %q for %q: %w''
                                [filename configFile, name pod] err), w)
                   | (None, w) \<Rightarrow>
                       (case os_call env
                               (Chown (filepath_Join [directory pod, filename configFile])
                                  (uid pod) (gid pod)) w of
                          (Some err, w) \<Rightarrow>
                            (Some (Errorf ''error chowning %q for %q: %w''
                                     [filename configFile, name pod] err), w)
                        | (None, w) \<Rightarrow> render_configs env pod rest w)))))"

text \<open>The outer loop, lines 179 to 241: one directory per pod, then its files.\<close>

fun render_pods :: "env \<Rightarrow> pod list \<Rightarrow> world \<Rightarrow> error option \<times> world" where
  "render_pods env [] w = (None, w)"
| "render_pods env (pod # rest) w =
     (case os_call env (MkdirAll (directory pod) 493) w of
        (Some err, w) \<Rightarrow>
          (Some (Errorf ''error creating config directory for %q: %w'' [name pod] err), w)
      | (None, w) \<Rightarrow>
          (case render_configs env pod (configs pod) w of
             (Some err, w) \<Rightarrow> (Some err, w)
           | (None, w) \<Rightarrow> render_pods env rest w))"

text \<open>
  \<open>safe.WriterModify\<close>: the store hands the current status (a fresh, zero-valued one when
  there is none) to the mutator and stores the result, unless it refuses the update.
\<close>

definition WriterModify ::
  "env \<Rightarrow> world \<Rightarrow> (ConfigStatusSpec \<Rightarrow> ConfigStatusSpec) \<Rightarrow> error option \<times> world" where
  "WriterModify env w g =
     (case WriterModify_error env w of
        Some e \<Rightarrow> (Some e, w)
      | None \<Rightarrow>
          (None, w\<lparr>ConfigStatus :=
             Some (g (case ConfigStatus w of
                        None \<Rightarrow> \<lparr>Ready = False, Version = []\<rparr>
                      | Some r \<Rightarrow> r))\<rparr>))"

text \<open>The optional files, lines 143 to 157.\<close>

definition apiServerConfigs ::
  "env \<Rightarrow> StructuredAuthenticationConfigSpec option
     \<Rightarrow> StructuredAuthorizationConfigSpec option \<Rightarrow> configFile list" where
  "apiServerConfigs env structuredAuthNConfig structuredAuthZConfig =
     (let apiServerConfigs = [];
          apiServerConfigs =
            (case structuredAuthNConfig of
               None \<Rightarrow> apiServerConfigs
             | Some n \<Rightarrow>
                 if length (Config_authn n) > 0
                 then apiServerConfigs @
                   [\<lparr>filename = ''authentication-config.yaml'',
                     f = structuredAuthenticationConfig env n\<rparr>]
                 else apiServerConfigs)
      in case structuredAuthZConfig of
           None \<Rightarrow> apiServerConfigs
         | Some z \<Rightarrow>
             if length (Config_authz z) > 0
             then apiServerConfigs @
               [\<lparr>filename = ''authorization-config.yaml'',
                 f = structuredAuthorizationConfig env z\<rparr>]
             else apiServerConfigs)"

text \<open>The table of pods, lines 186 to 213.\<close>

definition pods ::
  "env \<Rightarrow> constants \<Rightarrow> AdmissionControlConfigSpec \<Rightarrow> AuditPolicyConfigSpec
     \<Rightarrow> configFile list \<Rightarrow> SchedulerConfigSpec \<Rightarrow> pod list" where
  "pods env c admissionConfig auditConfig optional kubeSchedulerConfig =
     [\<lparr>name = ''kube-apiserver'',
       directory = KubernetesAPIServerConfigDir c,
       uid = KubernetesAPIServerRunUser c,
       gid = KubernetesAPIServerRunGroup c,
       configs =
         [\<lparr>filename = ''admission-control-config.yaml'',
           f = admissionControlConfig env admissionConfig\<rparr>,
          \<lparr>filename = ''auditpolicy.yaml'',
           f = auditPolicyConfig env auditConfig\<rparr>] @ optional\<rparr>,
      \<lparr>name = ''kube-scheduler'',
       directory = KubernetesSchedulerConfigDir c,
       uid = KubernetesSchedulerRunUser c,
       gid = KubernetesSchedulerRunGroup c,
       configs =
         [\<lparr>filename = ''scheduler-config.yaml'',
           f = schedulerConfig env c kubeSchedulerConfig\<rparr>]\<rparr>]"

text \<open>
  One pass through the body of the \<open>for\<close> loop after an event has arrived:
  \<open>Skipped\<close> is \<open>continue\<close>, \<open>Returned e\<close> is \<open>return e\<close>, and \<open>Completed\<close> is reaching
  the end of the body.
\<close>

datatype outcome = Skipped | Returned error | Completed

definition iteration :: "env \<Rightarrow> constants \<Rightarrow> inputs \<Rightarrow> world \<Rightarrow> outcome \<times> world" where
  "iteration env c inp w =
     (case get_AdmissionControlConfig inp of
        NotFound \<Rightarrow> (Skipped, w)
      | GetError err \<Rightarrow>
          (Returned (Errorf ''error getting admission config resource: %w'' [] err), w)
      | Found admissionRes \<Rightarrow>
     (case get_AuditPolicyConfig inp of
        NotFound \<Rightarrow> (Skipped, w)
      | GetError err \<Rightarrow>
          (Returned (Errorf ''error getting audit config resource: %w'' [] err), w)
      | Found auditRes \<Rightarrow>
     (case get_StructuredAuthenticationConfig inp of
        NotFound \<Rightarrow> (Skipped, w)
      | GetError err \<Rightarrow>
          (Returned (Errorf
             ''error getting structured authentication config resource: %w'' [] err), w)
      | Found structuredAuthNRes \<Rightarrow>
     (case get_StructuredAuthorizationConfig inp of
        NotFound \<Rightarrow> (Skipped, w)
      | GetError err \<Rightarrow>
          (Returned (Errorf
             ''error getting structured authorization config resource: %w'' [] err), w)
      | Found structuredAuthZRes \<Rightarrow>
     (let optional = apiServerConfigs env (Some (TypedSpec structuredAuthNRes))
                       (Some (TypedSpec structuredAuthZRes)) in
      case get_SchedulerConfig inp of
        NotFound \<Rightarrow> (Skipped, w)
      | GetError err \<Rightarrow>
          (Returned (Errorf ''error getting scheduler config resource: %w'' [] err), w)
      | Found kubeSchedulerRes \<Rightarrow>
     (case render_pods env
             (pods env c (TypedSpec admissionRes) (TypedSpec auditRes) optional
                (TypedSpec kubeSchedulerRes)) w of
        (Some err, w) \<Rightarrow> (Returned err, w)
      | (None, w) \<Rightarrow>
     (case WriterModify env w
             (\<lambda>r. r\<lparr>Ready := True,
                     Version := Version_String admissionRes @ Version_String auditRes
                                @ Version_String kubeSchedulerRes\<rparr>) of
        (Some err, w) \<Rightarrow> (Returned err, w)
      | (None, w) \<Rightarrow>
          (Completed, w\<lparr>restart_backoff_resets := Suc (restart_backoff_resets w)\<rparr>))))))))"

text \<open>
  The loop itself. Each turn of \<open>select\<close> sees either the cancellation or an event, and an
  event comes with what the store answers during that iteration. \<open>Blocked\<close> is the loop
  waiting in \<open>select\<close> with nothing more to receive.
\<close>

datatype signal = ctx_Done | EventCh inputs

datatype run_result = Blocked | Return "error option"

fun Run :: "env \<Rightarrow> constants \<Rightarrow> signal list \<Rightarrow> world \<Rightarrow> run_result \<times> world" where
  "Run env c [] w = (Blocked, w)"
| "Run env c (ctx_Done # rest) w = (Return None, w)"
| "Run env c (EventCh inp # rest) w =
     (case iteration env c inp w of
        (Returned err, w) \<Rightarrow> (Return (Some err), w)
      | (Skipped, w) \<Rightarrow> Run env c rest w
      | (Completed, w) \<Rightarrow> Run env c rest w)"

section \<open>A concrete environment\<close>

text \<open>
  A small stand-in for the collaborators, used to run the controller on concrete inputs.
  Its decoders copy \<open>kind\<close> and \<open>apiVersion\<close> from the payload into the embedded
  \<open>TypeMeta\<close> (both must be strings when present), as the JSON tags of \<open>TypeMeta\<close>
  prescribe, keep the fields named in the schema, and report every other key as unknown.
\<close>

definition lookup_string :: "payload \<Rightarrow> string \<Rightarrow> error + string" where
  "lookup_string u k =
     (case map_of u k of
        None \<Rightarrow> Inr []
      | Some (JStr s) \<Rightarrow> Inr s
      | Some _ \<Rightarrow> Inl (External (''cannot convert to string: '' @ k)))"

definition sample_TypeMeta :: "payload \<Rightarrow> error + TypeMeta" where
  "sample_TypeMeta u =
     (case lookup_string u ''kind'' of
        Inl e \<Rightarrow> Inl e
      | Inr k \<Rightarrow>
          (case lookup_string u ''apiVersion'' of
             Inl e \<Rightarrow> Inl e
           | Inr a \<Rightarrow> Inr \<lparr>Kind = k, APIVersion = a\<rparr>))"

definition sample_fields :: "string list \<Rightarrow> payload \<Rightarrow> jv" where
  "sample_fields known u = JMap (filter (\<lambda>kv. fst kv \<in> set known) u)"

definition sample_unknown :: "string list \<Rightarrow> payload \<Rightarrow> string list" where
  "sample_unknown known u =
     map fst (filter (\<lambda>kv. fst kv \<notin> set (''kind'' # ''apiVersion'' # known)) u)"

definition sample_Policy_schema :: "Policy schema" where
  "sample_Policy_schema =
     \<lparr>decode = (\<lambda>u. case sample_TypeMeta u of
                   Inl e \<Rightarrow> Inl e
                 | Inr tm \<Rightarrow> Inr \<lparr>Kind = Kind tm, APIVersion = APIVersion tm,
                                Policy_fields = sample_fields [''rules'', ''omitStages''] u\<rparr>),
      unknown_fields = sample_unknown [''rules'', ''omitStages'']\<rparr>"

definition sample_AuthenticationConfiguration_schema ::
  "AuthenticationConfiguration schema" where
  "sample_AuthenticationConfiguration_schema =
     \<lparr>decode = (\<lambda>u. case sample_TypeMeta u of
                   Inl e \<Rightarrow> Inl e
                 | Inr tm \<Rightarrow> Inr \<lparr>Kind = Kind tm, APIVersion = APIVersion tm,
                                AuthenticationConfiguration_fields =
                                  sample_fields [''jwt'', ''anonymous''] u\<rparr>),
      unknown_fields = sample_unknown [''jwt'', ''anonymous'']\<rparr>"

definition sample_AuthorizationConfiguration_schema ::
  "AuthorizationConfiguration schema" where
  "sample_AuthorizationConfiguration_schema =
     \<lparr>decode = (\<lambda>u. case sample_TypeMeta u of
                   Inl e \<Rightarrow> Inl e
                 | Inr tm \<Rightarrow> Inr \<lparr>Kind = Kind tm, APIVersion = APIVersion tm,
                                AuthorizationConfiguration_fields =
                                  sample_fields [''authorizers''] u\<rparr>),
      unknown_fields = sample_unknown [''authorizers'']\<rparr>"

definition sample_ClientConnection :: "payload \<Rightarrow> ClientConnectionConfiguration" where
  "sample_ClientConnection u =
     (case map_of u ''clientConnection'' of
        Some (JMap cc) \<Rightarrow>
          \<lparr>Kubeconfig = (case map_of cc ''kubeconfig'' of Some (JStr s) \<Rightarrow> s | _ \<Rightarrow> []),
           ClientConnection_fields = sample_fields [''qps'', ''burst''] cc\<rparr>
      | _ \<Rightarrow> \<lparr>Kubeconfig = [], ClientConnection_fields = JMap []\<rparr>)"

definition sample_KubeSchedulerConfiguration_schema ::
  "KubeSchedulerConfiguration schema" where
  "sample_KubeSchedulerConfiguration_schema =
     \<lparr>decode = (\<lambda>u. case sample_TypeMeta u of
                   Inl e \<Rightarrow> Inl e
                 | Inr tm \<Rightarrow> Inr \<lparr>Kind = Kind tm, APIVersion = APIVersion tm,
                                ClientConnection = sample_ClientConnection u,
                                KubeSchedulerConfiguration_fields =
                                  sample_fields [''profiles'', ''parallelism''] u\<rparr>),
      unknown_fields = sample_unknown [''clientConnection'', ''profiles'', ''parallelism'']\<rparr>"

definition sample_Marshal :: "payload \<Rightarrow> error + string" where
  "sample_Marshal u = Inr (''{'' @ join_sep (map fst u) @ ''}'')"

definition sample_TypeMeta_of :: "runtime_Object \<Rightarrow> string \<times> string" where
  "sample_TypeMeta_of obj =
     (case obj of
        AdmissionConfigurationObj x \<Rightarrow> (APIVersion x, Kind x)
      | PolicyObj x \<Rightarrow> (APIVersion x, Kind x)
      | AuthenticationConfigurationObj x \<Rightarrow> (APIVersion x, Kind x)
      | AuthorizationConfigurationObj x \<Rightarrow> (APIVersion x, Kind x)
      | KubeSchedulerConfigurationObj x \<Rightarrow> (APIVersion x, Kind x))"

definition sample_Encode :: "runtime_Object \<Rightarrow> error + string" where
  "sample_Encode obj =
     Inr (''apiVersion: '' @ fst (sample_TypeMeta_of obj)
          @ '' kind: '' @ snd (sample_TypeMeta_of obj))"

definition sample_env :: env where
  "sample_env =
     \<lparr>json_Marshal = sample_Marshal,
      Policy_schema = sample_Policy_schema,
      AuthenticationConfiguration_schema = sample_AuthenticationConfiguration_schema,
      AuthorizationConfiguration_schema = sample_AuthorizationConfiguration_schema,
      KubeSchedulerConfiguration_schema = sample_KubeSchedulerConfiguration_schema,
      serializer_Encode = sample_Encode,
      os_error = (\<lambda>_ _. None),
      WriterModify_error = (\<lambda>_. None)\<rparr>"

definition sample_constants :: constants where
  "sample_constants =
     \<lparr>KubernetesAPIServerConfigDir = ''/system/config/kubernetes/kube-apiserver'',
      KubernetesAPIServerRunUser = 65534,
      KubernetesAPIServerRunGroup = 65534,
      KubernetesSchedulerConfigDir = ''/system/config/kubernetes/kube-scheduler'',
      KubernetesSchedulerRunUser = 65536,
      KubernetesSchedulerRunGroup = 65536,
      KubernetesSchedulerSecretsDir = ''/system/secrets/kubernetes/kube-scheduler''\<rparr>"

definition world0 :: world where
  "world0 = \<lparr>effects = [], ConfigStatus = None, restart_backoff_resets = 0\<rparr>"

definition sample_admission :: "AdmissionControlConfigSpec resource" where
  "sample_admission =
     \<lparr>TypedSpec = \<lparr>Config_admission =
        [\<lparr>Name = ''Foo'', Configuration = [(''a'', JNum 1)]\<rparr>]\<rparr>,
      Version_String = ''3''\<rparr>"

definition sample_audit :: "AuditPolicyConfigSpec resource" where
  "sample_audit =
     \<lparr>TypedSpec = \<lparr>Config_audit =
        [(''apiVersion'', JStr ''audit.k8s.io/v1''), (''kind'', JStr ''Policy''),
         (''rules'', JList [])]\<rparr>,
      Version_String = ''5''\<rparr>"

definition sample_authn :: "StructuredAuthenticationConfigSpec resource" where
  "sample_authn =
     \<lparr>TypedSpec = \<lparr>Config_authn = [(''jwt'', JList [])]\<rparr>, Version_String = ''1''\<rparr>"

definition sample_authz :: "StructuredAuthorizationConfigSpec resource" where
  "sample_authz =
     \<lparr>TypedSpec = \<lparr>Config_authz = [(''authorizers'', JList [])]\<rparr>,
      Version_String = ''2''\<rparr>"

definition sample_scheduler :: "SchedulerConfigSpec resource" where
  "sample_scheduler =
     \<lparr>TypedSpec = \<lparr>Config_scheduler =
        [(''clientConnection'', JMap [(''kubeconfig'', JStr ''/tmp/other'')])]\<rparr>,
      Version_String = ''7''\<rparr>"

definition sample_inputs :: inputs where
  "sample_inputs =
     \<lparr>get_AdmissionControlConfig = Found sample_admission,
      get_AuditPolicyConfig = Found sample_audit,
      get_StructuredAuthenticationConfig = Found sample_authn,
      get_StructuredAuthorizationConfig = Found sample_authz,
      get_SchedulerConfig = Found sample_scheduler\<rparr>"

text \<open>Variations of the inputs: an audit payload whose \<open>kind\<close> is not a string, a newer
  audit version, another authentication resource, and empty payloads.\<close>

definition sample_bad_audit :: "AuditPolicyConfigSpec resource" where
  "sample_bad_audit =
     \<lparr>TypedSpec = \<lparr>Config_audit =
        [(''apiVersion'', JStr ''audit.k8s.io/v1''), (''kind'', JNum 1)]\<rparr>,
      Version_String = ''6''\<rparr>"

definition sample_inputs_audit_changed :: inputs where
  "sample_inputs_audit_changed =
     sample_inputs\<lparr>get_AuditPolicyConfig := Found (sample_audit\<lparr>Version_String := ''6''\<rparr>)\<rparr>"

definition sample_inputs_optional_changed :: inputs where
  "sample_inputs_optional_changed =
     sample_inputs\<lparr>get_StructuredAuthenticationConfig :=
       Found \<lparr>TypedSpec = \<lparr>Config_authn = [(''anonymous'', JMap [])]\<rparr>,
              Version_String = ''9''\<rparr>\<rparr>"

definition sample_inputs_empty :: inputs where
  "sample_inputs_empty =
     sample_inputs\<lparr>get_AdmissionControlConfig :=
         Found \<lparr>TypedSpec = \<lparr>Config_admission = []\<rparr>, Version_String = ''4''\<rparr>,
       get_StructuredAuthenticationConfig :=
         Found \<lparr>TypedSpec = \<lparr>Config_authn = []\<rparr>, Version_String = ''1''\<rparr>,
       get_StructuredAuthorizationConfig :=
         Found \<lparr>TypedSpec = \<lparr>Config_authz = []\<rparr>, Version_String = ''2''\<rparr>\<rparr>"

section \<open>Properties to be checked\<close>

text \<open>The \<open>i\<close>-th output plugin carries the \<open>i\<close>-th input plugin's name and its
  configuration as re-encoded by \<open>json.Marshal\<close>.\<close>

definition plugin_matches ::
  "env \<Rightarrow> AdmissionPluginSpec \<Rightarrow> AdmissionPluginConfiguration \<Rightarrow> bool" where
  "plugin_matches env p q \<longleftrightarrow>
     plugin_Name q = Name p \<and> plugin_Path q = [] \<and>
     (case json_Marshal env (Configuration p) of
        Inl e \<Rightarrow> False
      | Inr raw \<Rightarrow> plugin_Configuration q = Some \<lparr>Raw = raw\<rparr>)"

text \<open>
  Permission bits are the low nine bits of a mode (\<open>0o777 = 511\<close>). Owner read-only is
  \<open>0o400 = 256\<close>; owner read, write and traverse with nothing for group and others is
  \<open>0o700 = 448\<close>; \<open>0o755 = 493\<close> adds read and traverse for group and others.
\<close>

definition owner_read_only :: "FileMode \<Rightarrow> bool" where
  "owner_read_only m \<longleftrightarrow> m AND 511 = 256"

definition owner_rwx_only :: "FileMode \<Rightarrow> bool" where
  "owner_rwx_only m \<longleftrightarrow> m AND 511 = 448"

definition owner_rwx_others_rx :: "FileMode \<Rightarrow> bool" where
  "owner_rwx_others_rx m \<longleftrightarrow> m AND 511 = 493"

text \<open>
  What rendering one file of a pod may add to the effects: what the file's closure prints,
  the write of that file with mode \<open>0o400\<close>, and its change of owner. For a pod, the
  creation of its directory with mode \<open>0o755\<close> comes on top.
\<close>

definition file_effect :: "pod \<Rightarrow> configFile \<Rightarrow> effect \<Rightarrow> bool" where
  "file_effect pod cf e \<longleftrightarrow>
     e \<in> set (fst (f cf ())) \<or>
     (case e of
        WriteFile p buf m \<Rightarrow> p = filepath_Join [directory pod, filename cf] \<and> m = 256
      | Chown p u g \<Rightarrow>
          p = filepath_Join [directory pod, filename cf] \<and> u = uid pod \<and> g = gid pod
      | _ \<Rightarrow> False)"

definition pod_effect :: "pod \<Rightarrow> effect \<Rightarrow> bool" where
  "pod_effect pod e \<longleftrightarrow>
     e = MkdirAll (directory pod) 493 \<or> (\<exists>cf \<in> set (configs pod). file_effect pod cf e)"

text \<open>The version token of an input, when the store has the resource.\<close>

definition version_of :: "'a resource get_result \<Rightarrow> string option" where
  "version_of g = (case g of Found res \<Rightarrow> Some (Version_String res) | _ \<Rightarrow> None)"

text \<open>The modes the controller passes to \<open>os.WriteFile\<close> and \<open>os.MkdirAll\<close>.\<close>

definition modes_as_coded :: "effect \<Rightarrow> bool" where
  "modes_as_coded e =
     (case e of
        WriteFile p buf m \<Rightarrow> m = 256 \<and> owner_read_only m
      | MkdirAll p m \<Rightarrow> m = 493 \<and> owner_rwx_others_rx m
      | _ \<Rightarrow> True)"

section \<open>Verified properties\<close>

subsection \<open>Unfolding rules for concrete runs\<close>

lemmas sample_unfold = sample_inputs_def sample_env_def sample_constants_def world0_def
  sample_admission_def sample_audit_def sample_authn_def sample_authz_def sample_scheduler_def
  sample_Policy_schema_def sample_AuthenticationConfiguration_schema_def
  sample_AuthorizationConfiguration_schema_def sample_KubeSchedulerConfiguration_schema_def
  sample_Marshal_def sample_Encode_def sample_TypeMeta_of_def sample_TypeMeta_def lookup_string_def
  sample_fields_def sample_unknown_def sample_ClientConnection_def

lemmas converter_unfold = admissionControlConfig_def auditPolicyConfig_def
  structuredAuthenticationConfig_def structuredAuthorizationConfig_def schedulerConfig_def
  FromUnstructuredWithValidation_def append_slice_def SchemeGroupVersion_String_def

subsection \<open>Admission control: plugin order\<close>

lemma admission_plugins_Inr:
  "admission_plugins env ps cfg = Inr cfg' \<Longrightarrow> Plugins cfg = Some old \<Longrightarrow>
   \<exists>out. cfg' = cfg\<lparr>Plugins := Some (old @ out)\<rparr> \<and> list_all2 (plugin_matches env) ps out"
proof (induction ps arbitrary: cfg old)
  case Nil
  then show ?case by simp
next
  case (Cons p ps)
  from Cons.prems obtain raw where raw: "json_Marshal env (Configuration p) = Inr raw"
    by (auto split: sum.splits)
  let ?q = "\<lparr>plugin_Name = Name p, plugin_Path = [], plugin_Configuration = Some \<lparr>Raw = raw\<rparr>\<rparr>"
  let ?cfg1 = "cfg\<lparr>Plugins := Some (old @ [?q])\<rparr>"
  from Cons.prems raw have step: "admission_plugins env ps ?cfg1 = Inr cfg'"
    by (simp add: append_slice_def)
  have "Plugins ?cfg1 = Some (old @ [?q])" by simp
  from Cons.IH [OF step this] obtain out where
    out: "cfg' = ?cfg1\<lparr>Plugins := Some ((old @ [?q]) @ out)\<rparr>" "list_all2 (plugin_matches env) ps out"
    by blast
  have "plugin_matches env p ?q" by (simp add: plugin_matches_def raw)
  with out show ?case
    by (intro exI [of _ "?q # out"]) simp
qed

lemma admission_plugins_Inl:
  "admission_plugins env ps cfg = Inl e \<Longrightarrow>
   \<exists>p \<in> set ps. \<exists>e'. json_Marshal env (Configuration p) = Inl e' \<and>
      e = Errorf ''error marshaling configuration for plugin %q: %w'' [Name p] e'"
  by (induction ps arbitrary: cfg) (auto split: sum.splits)

text \<open>
  Claim C9. The admission converter fails only when \<open>json.Marshal\<close> fails on some plugin's
  configuration. When it succeeds, the output plugin list has the length of the input
  list, and its \<open>i\<close>-th entry carries the \<open>i\<close>-th input plugin's name and re-encoded
  configuration: nothing is sorted, reordered or filtered.
\<close>

theorem admission_order:
  "(case snd (admissionControlConfig env spec ()) of
      Inl e \<Rightarrow> \<exists>p \<in> set (Config_admission spec). isl (json_Marshal env (Configuration p))
    | Inr obj \<Rightarrow>
        \<exists>cfg out. obj = AdmissionConfigurationObj cfg \<and> Plugins cfg = Some out \<and>
          length out = length (Config_admission spec) \<and>
          (\<forall>i < length out. plugin_matches env (Config_admission spec ! i) (out ! i)))"
proof (cases "admission_plugins env (Config_admission spec)
         \<lparr>Kind = ''AdmissionConfiguration'', APIVersion = SchemeGroupVersion_String, Plugins = Some []\<rparr>")
  case (Inl e)
  from admission_plugins_Inl [OF Inl] obtain p where
    "p \<in> set (Config_admission spec)" "isl (json_Marshal env (Configuration p))"
    by auto
  then have "\<exists>p \<in> set (Config_admission spec). isl (json_Marshal env (Configuration p))"
    by blast
  with Inl show ?thesis
    by (simp add: admissionControlConfig_def)
next
  case (Inr cfg')
  from admission_plugins_Inr [OF Inr, of "[]"] obtain out where
    "cfg' = \<lparr>Kind = ''AdmissionConfiguration'', APIVersion = SchemeGroupVersion_String, Plugins = Some out\<rparr>"
    "list_all2 (plugin_matches env) (Config_admission spec) out"
    by auto
  with Inr show ?thesis
    by (auto simp: admissionControlConfig_def list_all2_conv_all_nth)
qed


theorem admission_order_witness:
  "snd (admissionControlConfig sample_env
          \<lparr>Config_admission =
             [\<lparr>Name = ''Zeta'', Configuration = [(''z'', JNum 1)]\<rparr>,
              \<lparr>Name = ''Alpha'', Configuration = [(''a'', JBool True)]\<rparr>]\<rparr> ())
   = Inr (AdmissionConfigurationObj
       \<lparr>Kind = ''AdmissionConfiguration'', APIVersion = ''apiserver.config.k8s.io/v1'',
        Plugins = Some
          [\<lparr>plugin_Name = ''Zeta'', plugin_Path = [],
            plugin_Configuration = Some \<lparr>Raw = ''{z}''\<rparr>\<rparr>,
           \<lparr>plugin_Name = ''Alpha'', plugin_Path = [],
            plugin_Configuration = Some \<lparr>Raw = ''{a}''\<rparr>\<rparr>]\<rparr>)
   \<and> plugin_matches sample_env \<lparr>Name = ''Zeta'', Configuration = [(''z'', JNum 1)]\<rparr>
         \<lparr>plugin_Name = ''Zeta'', plugin_Path = [],
          plugin_Configuration = Some \<lparr>Raw = ''{z}''\<rparr>\<rparr>
   \<and> plugin_matches sample_env \<lparr>Name = ''Alpha'', Configuration = [(''a'', JBool True)]\<rparr>
         \<lparr>plugin_Name = ''Alpha'', plugin_Path = [],
          plugin_Configuration = Some \<lparr>Raw = ''{a}''\<rparr>\<rparr>"
  using admission_order [where env = sample_env and spec =
     "\<lparr>Config_admission =
        [\<lparr>Name = ''Zeta'', Configuration = [(''z'', JNum 1)]\<rparr>,
         \<lparr>Name = ''Alpha'', Configuration = [(''a'', JBool True)]\<rparr>]\<rparr>"]
  by (simp add: converter_unfold sample_unfold plugin_matches_def)

subsection \<open>Scheduler: forced credential path\<close>

text \<open>
  Claim C8. Whatever the scheduler payload says, a document rendered by the scheduler
  converter has as its client-connection kubeconfig path the fixed path
  \<open>filepath.Join(constants.KubernetesSchedulerSecretsDir, "kubeconfig")\<close>.
\<close>

theorem scheduler_kubeconfig:
  assumes "snd (schedulerConfig env c spec ()) = Inr obj"
  shows "\<exists>cfg. obj = KubeSchedulerConfigurationObj cfg \<and>
           Kubeconfig (ClientConnection cfg) =
             filepath_Join [KubernetesSchedulerSecretsDir c, ''kubeconfig'']"
  using assms
  by (auto simp: schedulerConfig_def split: sum.splits)

lemma sample_kubeconfig_path:
  "filepath_Join [''/system/secrets/kubernetes/kube-scheduler'', ''kubeconfig'']
     = ''/system/secrets/kubernetes/kube-scheduler/kubeconfig''"
  by code_simp

theorem scheduler_kubeconfig_witness:
  "Kubeconfig (ClientConnection (projr (decode (KubeSchedulerConfiguration_schema sample_env)
       (Config_scheduler (TypedSpec sample_scheduler))))) = ''/tmp/other''
   \<and> snd (schedulerConfig sample_env sample_constants (TypedSpec sample_scheduler) ())
       = Inr (KubeSchedulerConfigurationObj
           \<lparr>Kind = ''KubeSchedulerConfiguration'',
            APIVersion = ''kubescheduler.config.k8s.io/v1'',
            ClientConnection =
              \<lparr>Kubeconfig = ''/system/secrets/kubernetes/kube-scheduler/kubeconfig'',
               ClientConnection_fields = JMap []\<rparr>,
            KubeSchedulerConfiguration_fields = JMap []\<rparr>)"
  using scheduler_kubeconfig [where env = sample_env and c = sample_constants
      and spec = "TypedSpec sample_scheduler"]
  by (simp add: converter_unfold sample_unfold sample_kubeconfig_path)

subsection \<open>What the render loops do to the world\<close>

lemma os_call_cases:
  "os_call env ef w = (r, w') \<Longrightarrow>
     (\<exists>e. r = Some e \<and> os_error env (effects w) ef = Some e \<and> w' = w) \<or>
     (r = None \<and> os_error env (effects w) ef = None \<and> w' = w\<lparr>effects := effects w @ [ef]\<rparr>)"
  by (auto simp: os_call_def split: option.splits)

lemma render_configs_step:
  assumes "render_configs env pod (cf # rest) w = (r, w')"
  shows "(\<exists>k buf. r \<noteq> None \<and>
            w' = w\<lparr>effects := effects w @ fst (f cf ()) @
                    take k [WriteFile (filepath_Join [directory pod, filename cf]) buf 256]\<rparr>) \<or>
         (\<exists>obj buf. snd (f cf ()) = Inr obj \<and> serializer_Encode env obj = Inr buf \<and>
            render_configs env pod rest
              (w\<lparr>effects := effects w @ fst (f cf ()) @
                     [WriteFile (filepath_Join [directory pod, filename cf]) buf 256,
                      Chown (filepath_Join [directory pod, filename cf]) (uid pod) (gid pod)]\<rparr>)
              = (r, w'))"
proof (cases "f cf ()")
  case (Pair out res)
  let ?P = "filepath_Join [directory pod, filename cf]"
  let ?w0 = "w\<lparr>effects := effects w @ out\<rparr>"
  show ?thesis
  proof (cases res)
    case (Inl err)
    with Pair assms have "r \<noteq> None" "w' = w\<lparr>effects := effects w @ out @ take 0 [WriteFile ?P [] 256]\<rparr>"
      by auto
    with Pair show ?thesis by (metis fst_conv)
  next
    case (Inr obj)
    note obj = Inr
    show ?thesis
    proof (cases "serializer_Encode env obj")
      case (Inl err)
      with Pair obj assms have "r \<noteq> None" "w' = w\<lparr>effects := effects w @ out @ take 0 [WriteFile ?P [] 256]\<rparr>"
        by auto
      with Pair show ?thesis by (metis fst_conv)
    next
      case (Inr buf)
      note buf = Inr
      obtain r1 w1 where c1: "os_call env (WriteFile ?P buf 256) ?w0 = (r1, w1)"
        by (cases "os_call env (WriteFile ?P buf 256) ?w0")
      from os_call_cases [OF c1] show ?thesis
      proof
        assume "\<exists>e. r1 = Some e \<and> os_error env (effects ?w0) (WriteFile ?P buf 256) = Some e \<and> w1 = ?w0"
        with Pair obj buf c1 assms
        have "r \<noteq> None" "w' = w\<lparr>effects := effects w @ out @ take 0 [WriteFile ?P buf 256]\<rparr>"
          by auto
        with Pair show ?thesis by (metis fst_conv)
      next
        assume a1: "r1 = None \<and> os_error env (effects ?w0) (WriteFile ?P buf 256) = None \<and>
          w1 = ?w0\<lparr>effects := effects ?w0 @ [WriteFile ?P buf 256]\<rparr>"
        obtain r2 w2 where c2: "os_call env (Chown ?P (uid pod) (gid pod)) w1 = (r2, w2)"
          by (cases "os_call env (Chown ?P (uid pod) (gid pod)) w1")
        from os_call_cases [OF c2] show ?thesis
        proof
          assume "\<exists>e. r2 = Some e \<and> os_error env (effects w1) (Chown ?P (uid pod) (gid pod)) = Some e \<and> w2 = w1"
          with Pair obj buf c1 c2 a1 assms
          have "r \<noteq> None" "w' = w\<lparr>effects := effects w @ out @ take 1 [WriteFile ?P buf 256]\<rparr>"
            by auto
          with Pair show ?thesis by (metis fst_conv)
        next
          assume "r2 = None \<and> os_error env (effects w1) (Chown ?P (uid pod) (gid pod)) = None \<and>
            w2 = w1\<lparr>effects := effects w1 @ [Chown ?P (uid pod) (gid pod)]\<rparr>"
          with Pair obj buf c1 c2 a1 assms
          have "render_configs env pod rest
              (w\<lparr>effects := effects w @ out @ [WriteFile ?P buf 256, Chown ?P (uid pod) (gid pod)]\<rparr>)
              = (r, w')"
            by auto
          with Pair obj buf show ?thesis by auto
        qed
      qed
    qed
  qed
qed

lemma render_configs_frame:
  "render_configs env pod cfs w = (r, w') \<Longrightarrow>
   \<exists>new. w' = w\<lparr>effects := effects w @ new\<rparr> \<and>
     (\<forall>e \<in> set new. \<exists>cf \<in> set cfs. file_effect pod cf e)"
proof (induction cfs arbitrary: w)
  case Nil
  then have "w' = w\<lparr>effects := effects w @ []\<rparr>" by simp
  then show ?case by (metis empty_iff list.set(1))
next
  case (Cons cf rest)
  let ?P = "filepath_Join [directory pod, filename cf]"
  from render_configs_step [OF Cons.prems] show ?case
  proof
    assume "\<exists>k buf. r \<noteq> None \<and>
      w' = w\<lparr>effects := effects w @ fst (f cf ()) @ take k [WriteFile ?P buf 256]\<rparr>"
    then obtain k buf where
      w': "w' = w\<lparr>effects := effects w @ (fst (f cf ()) @ take k [WriteFile ?P buf 256])\<rparr>"
      by auto
    have "\<forall>e \<in> set (fst (f cf ()) @ take k [WriteFile ?P buf 256]). file_effect pod cf e"
      by (cases k) (auto simp: file_effect_def)
    with w' show ?thesis
      by (metis list.set_intros(1))
  next
    assume "\<exists>obj buf. snd (f cf ()) = Inr obj \<and> serializer_Encode env obj = Inr buf \<and>
      render_configs env pod rest
        (w\<lparr>effects := effects w @ fst (f cf ()) @
            [WriteFile ?P buf 256, Chown ?P (uid pod) (gid pod)]\<rparr>) = (r, w')"
    then obtain buf where go: "render_configs env pod rest
        (w\<lparr>effects := effects w @ fst (f cf ()) @
            [WriteFile ?P buf 256, Chown ?P (uid pod) (gid pod)]\<rparr>) = (r, w')"
      by auto
    let ?mid = "fst (f cf ()) @ [WriteFile ?P buf 256, Chown ?P (uid pod) (gid pod)]"
    from Cons.IH [OF go] obtain new where
      new: "w' = w\<lparr>effects := effects w @ ?mid @ new\<rparr>"
        "\<forall>e \<in> set new. \<exists>cf \<in> set rest. file_effect pod cf e"
      by auto
    have "\<forall>e \<in> set ?mid. file_effect pod cf e"
      by (auto simp: file_effect_def)
    with new(2) have "\<forall>e \<in> set (?mid @ new). \<exists>cf' \<in> set (cf # rest). file_effect pod cf' e"
      by auto
    with new(1) show ?thesis by blast
  qed
qed

lemma render_pods_frame:
  "render_pods env ps w = (r, w') \<Longrightarrow>
   \<exists>new. w' = w\<lparr>effects := effects w @ new\<rparr> \<and>
     (\<forall>e \<in> set new. \<exists>pod \<in> set ps. pod_effect pod e)"
proof (induction ps arbitrary: w)
  case Nil
  then have "w' = w\<lparr>effects := effects w @ []\<rparr>" by simp
  then show ?case by (metis empty_iff list.set(1))
next
  case (Cons pod rest)
  obtain r1 w1 where c1: "os_call env (MkdirAll (directory pod) 493) w = (r1, w1)"
    by (cases "os_call env (MkdirAll (directory pod) 493) w")
  from os_call_cases [OF c1] show ?case
  proof
    assume "\<exists>e. r1 = Some e \<and> os_error env (effects w) (MkdirAll (directory pod) 493) = Some e
      \<and> w1 = w"
    with c1 Cons.prems have "w' = w\<lparr>effects := effects w @ []\<rparr>" by auto
    then show ?thesis by (metis empty_iff list.set(1))
  next
    assume a1: "r1 = None \<and> os_error env (effects w) (MkdirAll (directory pod) 493) = None \<and>
      w1 = w\<lparr>effects := effects w @ [MkdirAll (directory pod) 493]\<rparr>"
    obtain r2 w2 where c2: "render_configs env pod (configs pod) w1 = (r2, w2)"
      by (cases "render_configs env pod (configs pod) w1")
    from render_configs_frame [OF c2] obtain new2 where
      new2: "w2 = w1\<lparr>effects := effects w1 @ new2\<rparr>"
        "\<forall>e \<in> set new2. \<exists>cf \<in> set (configs pod). file_effect pod cf e"
      by auto
    have here: "\<forall>e \<in> set (MkdirAll (directory pod) 493 # new2). pod_effect pod e"
      using new2(2) by (auto simp: pod_effect_def)
    from a1 new2(1) have w2: "w2 = w\<lparr>effects := effects w @ MkdirAll (directory pod) 493 # new2\<rparr>"
      by simp
    show ?thesis
    proof (cases r2)
      case (Some err)
      with c1 c2 a1 Cons.prems have "w' = w2" by simp
      with w2 here show ?thesis by (metis list.set_intros(1))
    next
      case None
      with c1 c2 a1 Cons.prems have go: "render_pods env rest w2 = (r, w')" by simp
      from Cons.IH [OF go] obtain new3 where
        new3: "w' = w2\<lparr>effects := effects w2 @ new3\<rparr>"
          "\<forall>e \<in> set new3. \<exists>pod \<in> set rest. pod_effect pod e"
        by auto
      from new3(1) w2 have
        "w' = w\<lparr>effects := effects w @ ((MkdirAll (directory pod) 493 # new2) @ new3)\<rparr>"
        by simp
      moreover from here new3(2) have
        "\<forall>e \<in> set ((MkdirAll (directory pod) 493 # new2) @ new3).
           \<exists>pod' \<in> set (pod # rest). pod_effect pod' e"
        by auto
      ultimately show ?thesis by blast
    qed
  qed
qed

lemma converters_print_only:
  "e \<in> set (fst (admissionControlConfig env a ())) \<Longrightarrow> \<exists>u. e = Println u"
  "e \<in> set (fst (auditPolicyConfig env b ())) \<Longrightarrow> \<exists>u. e = Println u"
  "e \<in> set (fst (structuredAuthenticationConfig env n ())) \<Longrightarrow> \<exists>u. e = Println u"
  "e \<in> set (fst (structuredAuthorizationConfig env z ())) \<Longrightarrow> \<exists>u. e = Println u"
  "e \<in> set (fst (schedulerConfig env c s ())) \<Longrightarrow> \<exists>u. e = Println u"
  by (auto simp: admissionControlConfig_def auditPolicyConfig_def
      structuredAuthenticationConfig_def structuredAuthorizationConfig_def schedulerConfig_def
      Let_def split: sum.splits)

lemma apiServerConfigs_print_only:
  "cf \<in> set (apiServerConfigs env n z) \<Longrightarrow> e \<in> set (fst (f cf ())) \<Longrightarrow> \<exists>u. e = Println u"
  by (auto simp: apiServerConfigs_def Let_def converters_print_only
      split: option.splits if_splits)

lemma pods_modes:
  assumes "pod \<in> set (pods env c a b (apiServerConfigs env n z) s)" and "pod_effect pod e"
  shows "modes_as_coded e"
proof -
  have files: "file_effect pod cf e \<Longrightarrow> \<forall>e' \<in> set (fst (f cf ())). \<exists>u. e' = Println u \<Longrightarrow>
      modes_as_coded e" for cf
    by (auto simp: file_effect_def modes_as_coded_def owner_read_only_def split: effect.splits)
  from assms(2) consider "e = MkdirAll (directory pod) 493"
    | cf where "cf \<in> set (configs pod)" "file_effect pod cf e"
    by (auto simp: pod_effect_def)
  then show ?thesis
  proof cases
    case 1
    then show ?thesis by (simp add: modes_as_coded_def owner_rwx_others_rx_def)
  next
    case 2
    from assms(1) 2(1) have "\<forall>e' \<in> set (fst (f cf ())). \<exists>u. e' = Println u"
      by (auto simp: pods_def converters_print_only apiServerConfigs_print_only)
    with 2(2) files show ?thesis by blast
  qed
qed

lemma WriterModify_effects:
  "WriterModify env w g = (r, w') \<Longrightarrow> effects w' = effects w"
  by (auto simp: WriterModify_def split: option.splits)

lemma iteration_frame:
  assumes "iteration env c inp w = (r, w')"
  shows "\<exists>new. effects w' = effects w @ new \<and> (\<forall>e \<in> set new. modes_as_coded e)"
proof -
  have none: "w' = w \<Longrightarrow> ?thesis" by simp
  show ?thesis
  proof (cases "\<exists>a b n z s. get_AdmissionControlConfig inp = Found a \<and>
      get_AuditPolicyConfig inp = Found b \<and> get_StructuredAuthenticationConfig inp = Found n \<and>
      get_StructuredAuthorizationConfig inp = Found z \<and> get_SchedulerConfig inp = Found s")
    case False
    with assms have "w' = w"
      by (auto simp: iteration_def Let_def split: get_result.splits)
    with none show ?thesis .
  next
    case True
    then obtain a b n z s where found: "get_AdmissionControlConfig inp = Found a"
      "get_AuditPolicyConfig inp = Found b" "get_StructuredAuthenticationConfig inp = Found n"
      "get_StructuredAuthorizationConfig inp = Found z" "get_SchedulerConfig inp = Found s"
      by auto
    let ?ps = "pods env c (TypedSpec a) (TypedSpec b)
      (apiServerConfigs env (Some (TypedSpec n)) (Some (TypedSpec z))) (TypedSpec s)"
    obtain r1 w1 where c1: "render_pods env ?ps w = (r1, w1)"
      by (cases "render_pods env ?ps w")
    from render_pods_frame [OF c1] obtain new where
      new: "w1 = w\<lparr>effects := effects w @ new\<rparr>" "\<forall>e \<in> set new. \<exists>pod \<in> set ?ps. pod_effect pod e"
      by auto
    from new(2) have ok: "\<forall>e \<in> set new. modes_as_coded e"
      using pods_modes by blast
    have "effects w' = effects w1"
    proof (cases r1)
      case (Some err)
      with assms found c1 show ?thesis by (simp add: iteration_def)
    next
      case None
      with assms found c1 show ?thesis
        by (auto simp: iteration_def dest: WriterModify_effects split: prod.splits option.splits)
    qed
    with new(1) ok show ?thesis by auto
  qed
qed

subsection \<open>A complete run\<close>

lemmas loop_unfold = iteration_def apiServerConfigs_def pods_def WriterModify_def os_call_def

lemma sample_paths:
  "filepath_Join [''/system/config/kubernetes/kube-apiserver'', ''admission-control-config.yaml'']
     = ''/system/config/kubernetes/kube-apiserver/admission-control-config.yaml''"
  "filepath_Join [''/system/config/kubernetes/kube-apiserver'', ''auditpolicy.yaml'']
     = ''/system/config/kubernetes/kube-apiserver/auditpolicy.yaml''"
  "filepath_Join [''/system/config/kubernetes/kube-apiserver'', ''authentication-config.yaml'']
     = ''/system/config/kubernetes/kube-apiserver/authentication-config.yaml''"
  "filepath_Join [''/system/config/kubernetes/kube-apiserver'', ''authorization-config.yaml'']
     = ''/system/config/kubernetes/kube-apiserver/authorization-config.yaml''"
  "filepath_Join [''/system/config/kubernetes/kube-scheduler'', ''scheduler-config.yaml'']
     = ''/system/config/kubernetes/kube-scheduler/scheduler-config.yaml''"
  "filepath_Join [''/system/secrets/kubernetes/kube-scheduler'', ''kubeconfig'']
     = ''/system/secrets/kubernetes/kube-scheduler/kubeconfig''"
  by code_simp+

lemma sample_run:
  "iteration sample_env sample_constants sample_inputs world0 =
    (Completed,
     \<lparr>effects =
        [MkdirAll ''/system/config/kubernetes/kube-apiserver'' 493,
         WriteFile ''/system/config/kubernetes/kube-apiserver/admission-control-config.yaml''
           ''apiVersion: apiserver.config.k8s.io/v1 kind: AdmissionConfiguration'' 256,
         Chown ''/system/config/kubernetes/kube-apiserver/admission-control-config.yaml''
           65534 65534,
         WriteFile ''/system/config/kubernetes/kube-apiserver/auditpolicy.yaml''
           ''apiVersion: audit.k8s.io/v1 kind: Policy'' 256,
         Chown ''/system/config/kubernetes/kube-apiserver/auditpolicy.yaml'' 65534 65534,
         Println [(''jwt'', JList [])],
         WriteFile ''/system/config/kubernetes/kube-apiserver/authentication-config.yaml''
           ''apiVersion: apiserver.config.k8s.io/v1beta1 kind: AuthenticationConfiguration''
           256,
         Chown ''/system/config/kubernetes/kube-apiserver/authentication-config.yaml''
           65534 65534,
         WriteFile ''/system/config/kubernetes/kube-apiserver/authorization-config.yaml''
           ''apiVersion: apiserver.config.k8s.io/v1beta1 kind: AuthorizationConfiguration''
           256,
         Chown ''/system/config/kubernetes/kube-apiserver/authorization-config.yaml''
           65534 65534,
         MkdirAll ''/system/config/kubernetes/kube-scheduler'' 493,
         WriteFile ''/system/config/kubernetes/kube-scheduler/scheduler-config.yaml''
           ''apiVersion: kubescheduler.config.k8s.io/v1 kind: KubeSchedulerConfiguration''
           256,
         Chown ''/system/config/kubernetes/kube-scheduler/scheduler-config.yaml''
           65536 65536],
      ConfigStatus = Some \<lparr>Ready = True, Version = ''357''\<rparr>,
      restart_backoff_resets = 1\<rparr>)"
  by (simp add: loop_unfold converter_unfold sample_unfold sample_paths)

subsection \<open>Optional inputs\<close>

text \<open>
  Claim C1. The claim is that an iteration in which the three required resources are present
  and an optional one is absent still renders the required files. The controller instead
  leaves the iteration at the first absent optional resource: with the structured
  authentication resource or the structured authorization resource absent (whatever the
  other inputs after it are), the iteration is skipped, nothing is written and the status
  is not published.
\<close>

theorem optional_absent_skips:
  "iteration env c
     \<lparr>get_AdmissionControlConfig = Found a, get_AuditPolicyConfig = Found b,
      get_StructuredAuthenticationConfig = NotFound,
      get_StructuredAuthorizationConfig = z, get_SchedulerConfig = s\<rparr> w
     = (Skipped, w)
   \<and> iteration env c
     \<lparr>get_AdmissionControlConfig = Found a, get_AuditPolicyConfig = Found b,
      get_StructuredAuthenticationConfig = Found n,
      get_StructuredAuthorizationConfig = NotFound, get_SchedulerConfig = s\<rparr> w
     = (Skipped, w)
   \<and> iteration sample_env sample_constants
       (sample_inputs\<lparr>get_StructuredAuthenticationConfig := NotFound,
                      get_StructuredAuthorizationConfig := NotFound\<rparr>) world0
     = (Skipped, world0)"
  by (simp add: iteration_def sample_inputs_def)

subsection \<open>Failure of the audit conversion\<close>

text \<open>
  Claim C2, as stated, says that no file is written when the audit payload fails to convert.
  On the concrete run below the admission file has been written and chowned before the
  audit converter is called.
\<close>

theorem audit_failure_counterexample:
  "iteration sample_env sample_constants
     (sample_inputs\<lparr>get_AuditPolicyConfig := Found sample_bad_audit\<rparr>) world0 =
    (Returned
       (Errorf ''error generating configuration %q for %q: %w''
          [''auditpolicy.yaml'', ''kube-apiserver'']
          (Errorf ''error unmarshaling audit policy configuration: %w'' []
             (External ''cannot convert to string: kind''))),
     \<lparr>effects =
        [MkdirAll ''/system/config/kubernetes/kube-apiserver'' 493,
         WriteFile ''/system/config/kubernetes/kube-apiserver/admission-control-config.yaml''
           ''apiVersion: apiserver.config.k8s.io/v1 kind: AdmissionConfiguration'' 256,
         Chown ''/system/config/kubernetes/kube-apiserver/admission-control-config.yaml''
           65534 65534],
      ConfigStatus = None,
      restart_backoff_resets = 0\<rparr>)"
  by (simp add: loop_unfold converter_unfold sample_unfold sample_bad_audit_def sample_paths)

text \<open>
  Claim C2, amended. When all five inputs are present and the audit converter fails with
  \<open>e\<close>, the iteration returns an error, the status and the restart backoff are left as they
  were, and what has been done to the file system is a prefix of: create the API-server
  directory, write the admission file, chown it. Nothing else is written, in particular
  nothing for the scheduler. When the whole prefix has been done, the error returned is
  the audit converter's error, wrapped with the file and pod names.
\<close>

theorem audit_failure:
  assumes found: "get_AdmissionControlConfig inp = Found a" "get_AuditPolicyConfig inp = Found b"
      "get_StructuredAuthenticationConfig inp = Found n"
      "get_StructuredAuthorizationConfig inp = Found z" "get_SchedulerConfig inp = Found s"
    and fail: "snd (auditPolicyConfig env (TypedSpec b) ()) = Inl e"
    and run: "iteration env c inp w = (r, w')"
  shows "(\<exists>err. r = Returned err) \<and>
         ConfigStatus w' = ConfigStatus w \<and>
         restart_backoff_resets w' = restart_backoff_resets w \<and>
         (\<exists>k buf. effects w' = effects w @ take k
            [MkdirAll (KubernetesAPIServerConfigDir c) 493,
             WriteFile (filepath_Join [KubernetesAPIServerConfigDir c,
                ''admission-control-config.yaml'']) buf 256,
             Chown (filepath_Join [KubernetesAPIServerConfigDir c,
                ''admission-control-config.yaml''])
               (KubernetesAPIServerRunUser c) (KubernetesAPIServerRunGroup c)] \<and>
            (3 \<le> k \<longrightarrow> r = Returned
               (Errorf ''error generating configuration %q for %q: %w''
                  [''auditpolicy.yaml'', ''kube-apiserver''] e)))"
proof -
  let ?D = "KubernetesAPIServerConfigDir c"
  let ?P = "filepath_Join [?D, ''admission-control-config.yaml'']"
  let ?opt = "apiServerConfigs env (Some (TypedSpec n)) (Some (TypedSpec z))"
  let ?audit = "\<lparr>filename = ''auditpolicy.yaml'', f = auditPolicyConfig env (TypedSpec b)\<rparr>"
  let ?adm = "\<lparr>filename = ''admission-control-config.yaml'',
               f = admissionControlConfig env (TypedSpec a)\<rparr>"
  let ?api = "\<lparr>name = ''kube-apiserver'', directory = ?D,
       uid = KubernetesAPIServerRunUser c, gid = KubernetesAPIServerRunGroup c,
       configs = [?adm, ?audit] @ ?opt\<rparr>"
  let ?ps = "pods env c (TypedSpec a) (TypedSpec b) ?opt (TypedSpec s)"
  let ?L = "\<lambda>buf. [MkdirAll ?D 493, WriteFile ?P buf 256,
       Chown ?P (KubernetesAPIServerRunUser c) (KubernetesAPIServerRunGroup c)]"
  let ?E = "Errorf ''error generating configuration %q for %q: %w''
                  [''auditpolicy.yaml'', ''kube-apiserver''] e"
  obtain r1 w1 where c1: "render_pods env ?ps w = (r1, w1)"
    by (cases "render_pods env ?ps w")
  have audit_out: "auditPolicyConfig env (TypedSpec b) () = ([], Inl e)"
    using fail by (auto simp: auditPolicyConfig_def split: sum.splits)
  have adm_out: "fst (admissionControlConfig env (TypedSpec a) ()) = []"
    by (simp add: admissionControlConfig_def Let_def split: sum.splits)
  have key: "\<exists>err. r1 = Some err \<and> (\<exists>k buf. w1 = w\<lparr>effects := effects w @ take k (?L buf)\<rparr> \<and>
      (3 \<le> k \<longrightarrow> err = ?E))"
  proof -
    obtain r2 w2 where c2: "os_call env (MkdirAll ?D 493) w = (r2, w2)"
      by (cases "os_call env (MkdirAll ?D 493) w")
    from os_call_cases [OF c2] show ?thesis
    proof
      assume "\<exists>err. r2 = Some err \<and> os_error env (effects w) (MkdirAll ?D 493) = Some err \<and> w2 = w"
      with c1 c2 have "\<exists>err. r1 = Some err" "w1 = w\<lparr>effects := effects w @ take 0 (?L [])\<rparr>"
        by (auto simp: pods_def)
      then show ?thesis by (metis not_numeral_le_zero)
    next
      assume a2: "r2 = None \<and> os_error env (effects w) (MkdirAll ?D 493) = None \<and>
        w2 = w\<lparr>effects := effects w @ [MkdirAll ?D 493]\<rparr>"
      obtain r3 w3 where c3: "render_configs env ?api (?adm # ?audit # ?opt) w2 = (r3, w3)"
        by (cases "render_configs env ?api (?adm # ?audit # ?opt) w2")
      have r1: "r3 \<noteq> None \<Longrightarrow> r1 = r3 \<and> w1 = w3"
        using c1 c2 c3 a2 by (auto simp: pods_def)
      from render_configs_step [OF c3] show ?thesis
      proof
        assume "\<exists>k buf. r3 \<noteq> None \<and> w3 = w2\<lparr>effects := effects w2 @ fst (f ?adm ()) @
          take k [WriteFile (filepath_Join [directory ?api, filename ?adm]) buf 256]\<rparr>"
        then obtain k buf where st: "r3 \<noteq> None"
          "w3 = w2\<lparr>effects := effects w2 @ take k [WriteFile ?P buf 256]\<rparr>"
          by (auto simp: adm_out)
        have "\<exists>j. j < 3 \<and> w3 = w\<lparr>effects := effects w @ take j (?L buf)\<rparr>"
        proof (cases k)
          case 0
          with st(2) a2 have "w3 = w\<lparr>effects := effects w @ take 1 (?L buf)\<rparr>" by simp
          then show ?thesis by (metis one_less_numeral_iff semiring_norm(77))
        next
          case (Suc k')
          with st(2) a2 have "w3 = w\<lparr>effects := effects w @ take 2 (?L buf)\<rparr>"
            by (simp add: numeral_2_eq_2)
          moreover have "(2::nat) < 3" by simp
          ultimately show ?thesis by blast
        qed
        then obtain j where "j < 3" "w3 = w\<lparr>effects := effects w @ take j (?L buf)\<rparr>"
          by blast
        moreover from \<open>j < 3\<close> have "\<not> 3 \<le> j" by simp
        ultimately show ?thesis using r1 [OF st(1)] st(1) by blast
      next
        assume "\<exists>obj buf. snd (f ?adm ()) = Inr obj \<and> serializer_Encode env obj = Inr buf \<and>
          render_configs env ?api (?audit # ?opt)
            (w2\<lparr>effects := effects w2 @ fst (f ?adm ()) @
               [WriteFile (filepath_Join [directory ?api, filename ?adm]) buf 256,
                Chown (filepath_Join [directory ?api, filename ?adm]) (uid ?api) (gid ?api)]\<rparr>)
            = (r3, w3)"
        then obtain buf where go: "render_configs env ?api (?audit # ?opt)
            (w2\<lparr>effects := effects w2 @
               [WriteFile ?P buf 256,
                Chown ?P (KubernetesAPIServerRunUser c) (KubernetesAPIServerRunGroup c)]\<rparr>)
            = (r3, w3)"
          by (auto simp: adm_out)
        from go audit_out a2 have "r3 = Some ?E" "w3 = w\<lparr>effects := effects w @ take 3 (?L buf)\<rparr>"
          by auto
        with r1 show ?thesis by blast
      qed
    qed
  qed
  then obtain err k buf where res: "r1 = Some err" "w1 = w\<lparr>effects := effects w @ take k (?L buf)\<rparr>"
    "3 \<le> k \<longrightarrow> err = ?E"
    by blast
  from run found c1 res(1) have "r = Returned err" "w' = w1"
    by (auto simp: iteration_def)
  with res show ?thesis by auto
qed

text \<open>The amended statement on a run in which every step before the audit conversion
  succeeds: all three effects of the prefix are there, and nothing more.\<close>

theorem audit_failure_witness:
  "snd (auditPolicyConfig sample_env (TypedSpec sample_bad_audit) ()) =
     Inl (Errorf ''error unmarshaling audit policy configuration: %w'' []
            (External ''cannot convert to string: kind''))
   \<and> fst (iteration sample_env sample_constants
            (sample_inputs\<lparr>get_AuditPolicyConfig := Found sample_bad_audit\<rparr>) world0) =
       Returned
         (Errorf ''error generating configuration %q for %q: %w''
            [''auditpolicy.yaml'', ''kube-apiserver'']
            (Errorf ''error unmarshaling audit policy configuration: %w'' []
               (External ''cannot convert to string: kind'')))
   \<and> ConfigStatus (snd (iteration sample_env sample_constants
            (sample_inputs\<lparr>get_AuditPolicyConfig := Found sample_bad_audit\<rparr>) world0)) =
       ConfigStatus world0
   \<and> effects (snd (iteration sample_env sample_constants
            (sample_inputs\<lparr>get_AuditPolicyConfig := Found sample_bad_audit\<rparr>) world0)) =
       [MkdirAll ''/system/config/kubernetes/kube-apiserver'' 493,
        WriteFile ''/system/config/kubernetes/kube-apiserver/admission-control-config.yaml''
          ''apiVersion: apiserver.config.k8s.io/v1 kind: AdmissionConfiguration'' 256,
        Chown ''/system/config/kubernetes/kube-apiserver/admission-control-config.yaml''
          65534 65534]"
  using audit_failure [where env = sample_env and c = sample_constants and w = world0
      and inp = "sample_inputs\<lparr>get_AuditPolicyConfig := Found sample_bad_audit\<rparr>"
      and a = sample_admission and b = sample_bad_audit and n = sample_authn
      and z = sample_authz and s = sample_scheduler]
  by (simp add: loop_unfold converter_unfold sample_unfold sample_bad_audit_def sample_paths)

subsection \<open>The published version\<close>

lemma ConfigStatusSpec_set_both:
  "(r :: ConfigStatusSpec)\<lparr>Ready := x, Version := v\<rparr> = \<lparr>Ready = x, Version = v\<rparr>"
  by (cases r) simp

lemma WriterModify_status:
  "WriterModify env w (\<lambda>r. r\<lparr>Ready := x, Version := v\<rparr>) = (None, w') \<Longrightarrow>
     ConfigStatus w' = Some \<lparr>Ready = x, Version = v\<rparr>"
  by (auto simp: WriterModify_def ConfigStatusSpec_set_both split: option.splits)

lemma iteration_Completed:
  assumes "iteration env c inp w = (Completed, w')"
  shows "\<exists>a b n z s. get_AdmissionControlConfig inp = Found a \<and>
      get_AuditPolicyConfig inp = Found b \<and> get_StructuredAuthenticationConfig inp = Found n \<and>
      get_StructuredAuthorizationConfig inp = Found z \<and> get_SchedulerConfig inp = Found s \<and>
      ConfigStatus w' = Some \<lparr>Ready = True,
        Version = Version_String a @ Version_String b @ Version_String s\<rparr>"
proof -
  from assms obtain a where a: "get_AdmissionControlConfig inp = Found a"
    by (cases "get_AdmissionControlConfig inp") (auto simp: iteration_def)
  from assms a obtain b where b: "get_AuditPolicyConfig inp = Found b"
    by (cases "get_AuditPolicyConfig inp") (auto simp: iteration_def)
  from assms a b obtain n where n: "get_StructuredAuthenticationConfig inp = Found n"
    by (cases "get_StructuredAuthenticationConfig inp") (auto simp: iteration_def)
  from assms a b n obtain z where z: "get_StructuredAuthorizationConfig inp = Found z"
    by (cases "get_StructuredAuthorizationConfig inp") (auto simp: iteration_def)
  from assms a b n z obtain s where s: "get_SchedulerConfig inp = Found s"
    by (cases "get_SchedulerConfig inp") (auto simp: iteration_def)
  let ?ps = "pods env c (TypedSpec a) (TypedSpec b)
      (apiServerConfigs env (Some (TypedSpec n)) (Some (TypedSpec z))) (TypedSpec s)"
  let ?g = "\<lambda>r. r\<lparr>Ready := True,
      Version := Version_String a @ Version_String b @ Version_String s\<rparr>"
  obtain r1 w1 where c1: "render_pods env ?ps w = (r1, w1)"
    by (cases "render_pods env ?ps w")
  obtain r2 w2 where c2: "WriterModify env w1 ?g = (r2, w2)"
    by (cases "WriterModify env w1 ?g")
  from assms a b n z s c1 have r1: "r1 = None"
    by (cases r1) (auto simp: iteration_def)
  from assms a b n z s c1 c2 r1 have r2: "r2 = None"
    by (cases r2) (auto simp: iteration_def)
  from assms a b n z s c1 c2 r1 r2
  have "w' = w2\<lparr>restart_backoff_resets := Suc (restart_backoff_resets w2)\<rparr>"
    by (simp add: iteration_def)
  moreover from c2 r2 have "ConfigStatus w2 = Some \<lparr>Ready = True,
        Version = Version_String a @ Version_String b @ Version_String s\<rparr>"
    by (simp add: WriterModify_status)
  ultimately show ?thesis using a b n z s by simp
qed

text \<open>
  Claim C3. After an iteration that completes, the published status is ready and its
  \<open>Version\<close> is the admission version, then the audit version, then the scheduler version.
  Of two completed iterations, those that agree on the admission and scheduler versions
  and differ on the audit version publish different versions; those that agree on all
  three publish the same status, whatever the optional resources (or any payload) are.
\<close>

theorem version_determinism:
  assumes run1: "iteration env1 c1 inp1 w1 = (Completed, w1')"
      and run2: "iteration env2 c2 inp2 w2 = (Completed, w2')"
  shows "(\<exists>a b s. get_AdmissionControlConfig inp1 = Found a \<and>
            get_AuditPolicyConfig inp1 = Found b \<and> get_SchedulerConfig inp1 = Found s \<and>
            ConfigStatus w1' = Some \<lparr>Ready = True,
              Version = Version_String a @ Version_String b @ Version_String s\<rparr>)
       \<and> (version_of (get_AdmissionControlConfig inp1) = version_of (get_AdmissionControlConfig inp2)
            \<and> version_of (get_SchedulerConfig inp1) = version_of (get_SchedulerConfig inp2)
            \<and> version_of (get_AuditPolicyConfig inp1) \<noteq> version_of (get_AuditPolicyConfig inp2)
          \<longrightarrow> map_option Version (ConfigStatus w1') \<noteq> map_option Version (ConfigStatus w2'))
       \<and> (version_of (get_AdmissionControlConfig inp1) = version_of (get_AdmissionControlConfig inp2)
            \<and> version_of (get_AuditPolicyConfig inp1) = version_of (get_AuditPolicyConfig inp2)
            \<and> version_of (get_SchedulerConfig inp1) = version_of (get_SchedulerConfig inp2)
          \<longrightarrow> ConfigStatus w1' = ConfigStatus w2')"
proof -
  from iteration_Completed [OF run1] obtain a1 b1 s1 where
    f1: "get_AdmissionControlConfig inp1 = Found a1" "get_AuditPolicyConfig inp1 = Found b1"
      "get_SchedulerConfig inp1 = Found s1"
    and st1: "ConfigStatus w1' = Some \<lparr>Ready = True,
        Version = Version_String a1 @ Version_String b1 @ Version_String s1\<rparr>"
    by blast
  from iteration_Completed [OF run2] obtain a2 b2 s2 where
    f2: "get_AdmissionControlConfig inp2 = Found a2" "get_AuditPolicyConfig inp2 = Found b2"
      "get_SchedulerConfig inp2 = Found s2"
    and st2: "ConfigStatus w2' = Some \<lparr>Ready = True,
        Version = Version_String a2 @ Version_String b2 @ Version_String s2\<rparr>"
    by blast
  show ?thesis
    using f1 f2 st1 st2 by (simp add: version_of_def)
qed

lemma sample_run_audit_changed:
  "fst (iteration sample_env sample_constants sample_inputs_audit_changed world0) = Completed"
  "ConfigStatus (snd (iteration sample_env sample_constants sample_inputs_audit_changed world0))
     = Some \<lparr>Ready = True, Version = ''367''\<rparr>"
  by (simp_all add: sample_inputs_audit_changed_def loop_unfold converter_unfold sample_unfold
      sample_paths)

lemma sample_run_optional_changed:
  "fst (iteration sample_env sample_constants sample_inputs_optional_changed world0) = Completed"
  "ConfigStatus (snd (iteration sample_env sample_constants sample_inputs_optional_changed world0))
     = Some \<lparr>Ready = True, Version = ''357''\<rparr>"
  by (simp_all add: sample_inputs_optional_changed_def loop_unfold converter_unfold
      sample_unfold sample_paths)

theorem version_determinism_witness:
  "fst (iteration sample_env sample_constants sample_inputs world0) = Completed
   \<and> ConfigStatus (snd (iteration sample_env sample_constants sample_inputs world0))
       = Some \<lparr>Ready = True, Version = ''357''\<rparr>
   \<and> version_of (get_AuditPolicyConfig sample_inputs)
       \<noteq> version_of (get_AuditPolicyConfig sample_inputs_audit_changed)
   \<and> ConfigStatus (snd (iteration sample_env sample_constants sample_inputs_audit_changed world0))
       = Some \<lparr>Ready = True, Version = ''367''\<rparr>
   \<and> get_StructuredAuthenticationConfig sample_inputs
       \<noteq> get_StructuredAuthenticationConfig sample_inputs_optional_changed
   \<and> ConfigStatus (snd (iteration sample_env sample_constants sample_inputs_optional_changed world0))
       = Some \<lparr>Ready = True, Version = ''357''\<rparr>"
proof -
  let ?run = "\<lambda>inp. iteration sample_env sample_constants inp world0"
  have r1: "?run sample_inputs = (Completed, snd (?run sample_inputs))"
    by (simp add: sample_run)
  have r2: "?run sample_inputs_audit_changed = (Completed, snd (?run sample_inputs_audit_changed))"
    using sample_run_audit_changed(1) by (simp add: prod_eq_iff)
  have r3: "?run sample_inputs_optional_changed
      = (Completed, snd (?run sample_inputs_optional_changed))"
    using sample_run_optional_changed(1) by (simp add: prod_eq_iff)
  have d2: "version_of (get_AuditPolicyConfig sample_inputs)
        \<noteq> version_of (get_AuditPolicyConfig sample_inputs_audit_changed)"
    by (simp add: version_of_def sample_inputs_audit_changed_def sample_inputs_def
        sample_audit_def)
  have d3: "get_StructuredAuthenticationConfig sample_inputs
       \<noteq> get_StructuredAuthenticationConfig sample_inputs_optional_changed"
    by (simp add: sample_inputs_optional_changed_def sample_inputs_def sample_authn_def)
  from version_determinism [OF r1 r2] version_determinism [OF r1 r3]
    sample_run sample_run_audit_changed sample_run_optional_changed d2 d3
  show ?thesis by simp
qed

subsection \<open>Discriminator fields\<close>

text \<open>Four of the five converters set \<open>apiVersion\<close> and \<open>kind\<close> themselves; the audit
  converter hands on what the decoder produced.\<close>

lemma converters_stamp:
  "snd (admissionControlConfig env a ()) = Inr obj \<Longrightarrow>
     \<exists>cfg. obj = AdmissionConfigurationObj cfg \<and>
       APIVersion cfg = ''apiserver.config.k8s.io/v1'' \<and> Kind cfg = ''AdmissionConfiguration''"
  "snd (structuredAuthenticationConfig env n ()) = Inr obj \<Longrightarrow>
     \<exists>cfg. obj = AuthenticationConfigurationObj cfg \<and>
       APIVersion cfg = ''apiserver.config.k8s.io/v1beta1'' \<and>
       Kind cfg = ''AuthenticationConfiguration''"
  "snd (structuredAuthorizationConfig env z ()) = Inr obj \<Longrightarrow>
     \<exists>cfg. obj = AuthorizationConfigurationObj cfg \<and>
       APIVersion cfg = ''apiserver.config.k8s.io/v1beta1'' \<and>
       Kind cfg = ''AuthorizationConfiguration''"
  "snd (schedulerConfig env c s ()) = Inr obj \<Longrightarrow>
     \<exists>cfg. obj = KubeSchedulerConfigurationObj cfg \<and>
       APIVersion cfg = ''kubescheduler.config.k8s.io/v1'' \<and>
       Kind cfg = ''KubeSchedulerConfiguration''"
proof -
  show "snd (admissionControlConfig env a ()) = Inr obj \<Longrightarrow>
     \<exists>cfg. obj = AdmissionConfigurationObj cfg \<and>
       APIVersion cfg = ''apiserver.config.k8s.io/v1'' \<and> Kind cfg = ''AdmissionConfiguration''"
    by (auto simp: admissionControlConfig_def SchemeGroupVersion_String_def
        split: sum.splits dest!: admission_plugins_Inr [where old = "[]"])
qed (auto simp: structuredAuthenticationConfig_def structuredAuthorizationConfig_def
      schedulerConfig_def Let_def split: sum.splits)

lemma audit_passes_decoder_output:
  "snd (auditPolicyConfig env b ()) = Inr obj \<longleftrightarrow>
     (\<exists>cfg. FromUnstructuredWithValidation (Policy_schema env) (Config_audit b) True = Inr cfg \<and>
        obj = PolicyObj cfg)"
  by (auto simp: auditPolicyConfig_def split: sum.splits)

text \<open>
  Claim C4. The claim is that every converter sets the discriminator pair itself. The audit
  converter does not: for a payload without \<open>apiVersion\<close> and \<open>kind\<close> the rendered policy has
  both empty, and for a payload with a wrong pair the rendered policy carries the wrong
  pair, where \<open>audit.k8s.io/v1\<close> and \<open>Policy\<close> were expected.
\<close>

theorem audit_discriminator_not_stamped:
  "snd (auditPolicyConfig sample_env \<lparr>Config_audit = [(''rules'', JList [])]\<rparr> ()) =
     Inr (PolicyObj \<lparr>Kind = [], APIVersion = [],
            Policy_fields = JMap [(''rules'', JList [])]\<rparr>)
   \<and> snd (auditPolicyConfig sample_env
        \<lparr>Config_audit = [(''apiVersion'', JStr ''example.com/v0''), (''kind'', JStr ''Bogus'')]\<rparr>
        ()) =
     Inr (PolicyObj \<lparr>Kind = ''Bogus'', APIVersion = ''example.com/v0'',
            Policy_fields = JMap []\<rparr>)"
  by (simp add: converter_unfold sample_unfold)

subsection \<open>Purity of the converters\<close>

text \<open>
  Claim C7. The claim is that a converter does nothing but return its result. The structured
  authentication converter prints its whole payload on standard output each time it runs,
  so a render cycle with a non-empty authentication payload writes that payload to a
  channel other than the file system and the status.
\<close>

theorem authentication_converter_prints:
  "fst (structuredAuthenticationConfig env spec ()) = [Println (Config_authn spec)]
   \<and> Println [(''jwt'', JList [])]
       \<in> set (effects (snd (iteration sample_env sample_constants sample_inputs world0)))"
  by (simp add: sample_run structuredAuthenticationConfig_def Let_def split: sum.splits)

subsection \<open>Strictness\<close>

text \<open>
  The audit, structured authentication and structured authorization converters ask the
  unstructured converter to report unknown fields: a payload with a field that does not
  map to the target schema makes them fail.
\<close>

lemma siblings_strict:
  "unknown_fields (Policy_schema env) (Config_audit b) \<noteq> []
     \<Longrightarrow> isl (snd (auditPolicyConfig env b ()))"
  "unknown_fields (AuthenticationConfiguration_schema env) (Config_authn n) \<noteq> []
     \<Longrightarrow> isl (snd (structuredAuthenticationConfig env n ()))"
  "unknown_fields (AuthorizationConfiguration_schema env) (Config_authz z) \<noteq> []
     \<Longrightarrow> isl (snd (structuredAuthorizationConfig env z ()))"
  by (auto simp: converter_unfold Let_def split: sum.splits)

lemma siblings_strict_sample:
  "snd (auditPolicyConfig sample_env \<lparr>Config_audit = [(''rulez'', JList [])]\<rparr> ()) =
     Inl (Errorf ''error unmarshaling audit policy configuration: %w'' []
            (StrictDecodingError [''rulez'']))"
  "snd (structuredAuthenticationConfig sample_env \<lparr>Config_authn = [(''jwtt'', JList [])]\<rparr> ())
     = Inl (Errorf ''error unmarshaling structured authentication configuration: %w'' []
            (StrictDecodingError [''jwtt'']))"
  "snd (structuredAuthorizationConfig sample_env
          \<lparr>Config_authz = [(''authorisers'', JList [])]\<rparr> ())
     = Inl (Errorf ''error unmarshaling structured authorization configuration: %w'' []
            (StrictDecodingError [''authorisers'']))"
  by (simp_all add: converter_unfold sample_unfold)

text \<open>
  Claim C5. The claim is that conversion is strict for every kind: a payload field that does
  not map to the target schema makes the converter fail. The scheduler converter calls
  the unstructured converter with \<open>returnUnknownFields\<close> off, where its three siblings pass
  \<open>true\<close>. So its result is the decoder's alone and the unknown fields are never looked
  at: it renders a document whenever the decoder accepts the payload, and that document
  is the decoded one with the three forced fields, from which a field outside the schema
  is gone. On the payload \<open>{bogusField: 1}\<close> a strict call reports \<open>bogusField\<close>, and the
  scheduler converter returns a document without it.
\<close>

theorem scheduler_unknown_fields_dropped:
  "snd (schedulerConfig env c s ()) =
     (case decode (KubeSchedulerConfiguration_schema env) (Config_scheduler s) of
        Inl e \<Rightarrow> Inl (Errorf ''error unmarshaling scheduler configuration: %w'' [] e)
      | Inr cfg \<Rightarrow>
          Inr (KubeSchedulerConfigurationObj
            (cfg\<lparr>APIVersion := ''kubescheduler.config.k8s.io/v1'',
                 Kind := ''KubeSchedulerConfiguration'',
                 ClientConnection := (ClientConnection cfg)
                   \<lparr>Kubeconfig :=
                      filepath_Join [KubernetesSchedulerSecretsDir c, ''kubeconfig'']\<rparr>\<rparr>)))
   \<and> unknown_fields (KubeSchedulerConfiguration_schema sample_env) [(''bogusField'', JNum 1)]
     = [''bogusField'']
   \<and> FromUnstructuredWithValidation (KubeSchedulerConfiguration_schema sample_env)
       [(''bogusField'', JNum 1)] True
     = Inl (StrictDecodingError [''bogusField''])
   \<and> snd (schedulerConfig sample_env sample_constants
        \<lparr>Config_scheduler = [(''bogusField'', JNum 1)]\<rparr> ()) =
     Inr (KubeSchedulerConfigurationObj
       \<lparr>Kind = ''KubeSchedulerConfiguration'',
        APIVersion = ''kubescheduler.config.k8s.io/v1'',
        ClientConnection =
          \<lparr>Kubeconfig = ''/system/secrets/kubernetes/kube-scheduler/kubeconfig'',
           ClientConnection_fields = JMap []\<rparr>,
        KubeSchedulerConfiguration_fields = JMap []\<rparr>)"
proof -
  have "snd (schedulerConfig env c s ()) =
     (case decode (KubeSchedulerConfiguration_schema env) (Config_scheduler s) of
        Inl e \<Rightarrow> Inl (Errorf ''error unmarshaling scheduler configuration: %w'' [] e)
      | Inr cfg \<Rightarrow>
          Inr (KubeSchedulerConfigurationObj
            (cfg\<lparr>APIVersion := ''kubescheduler.config.k8s.io/v1'',
                 Kind := ''KubeSchedulerConfiguration'',
                 ClientConnection := (ClientConnection cfg)
                   \<lparr>Kubeconfig :=
                      filepath_Join [KubernetesSchedulerSecretsDir c, ''kubeconfig'']\<rparr>\<rparr>)))"
    by (simp add: schedulerConfig_def FromUnstructuredWithValidation_def split: sum.splits)
  then show ?thesis
    by (simp add: converter_unfold sample_unfold sample_paths)
qed

subsection \<open>File and directory modes\<close>

text \<open>
  Claim C6, as stated, says that directories are created with owner-only access. The
  directory of the API server is created with mode \<open>0o755\<close>, which lets group and others
  read and traverse it.
\<close>

theorem directory_mode_counterexample:
  "MkdirAll ''/system/config/kubernetes/kube-apiserver'' 493
     \<in> set (effects (snd (iteration sample_env sample_constants sample_inputs world0)))
   \<and> \<not> owner_rwx_only 493"
  by (simp add: sample_run owner_rwx_only_def)

text \<open>
  Claim C6, amended. Whatever an iteration adds to the effects, every file it writes is
  written with mode \<open>0o400\<close> (owner read-only, nothing for group and others), and every
  directory it creates is created with mode \<open>0o755\<close> (owner read, write and traverse;
  group and others read and traverse).
\<close>

theorem file_modes:
  assumes "iteration env c inp w = (r, w')"
  shows "\<exists>new. effects w' = effects w @ new \<and> (\<forall>e \<in> set new. modes_as_coded e)"
  using assms by (rule iteration_frame)

theorem file_modes_witness:
  "list_all modes_as_coded
     (effects (snd (iteration sample_env sample_constants sample_inputs world0)))
   \<and> WriteFile ''/system/config/kubernetes/kube-scheduler/scheduler-config.yaml''
        ''apiVersion: kubescheduler.config.k8s.io/v1 kind: KubeSchedulerConfiguration'' 256
      \<in> set (effects (snd (iteration sample_env sample_constants sample_inputs world0)))
   \<and> MkdirAll ''/system/config/kubernetes/kube-scheduler'' 493
      \<in> set (effects (snd (iteration sample_env sample_constants sample_inputs world0)))
   \<and> owner_read_only 256 \<and> owner_rwx_others_rx 493"
proof -
  let ?run = "iteration sample_env sample_constants sample_inputs world0"
  have "?run = (fst ?run, snd ?run)" by simp
  from file_modes [OF this] obtain new where
    "effects (snd ?run) = effects world0 @ new" "\<forall>e \<in> set new. modes_as_coded e"
    by blast
  moreover have "effects world0 = []" by (simp add: world0_def)
  ultimately have "list_all modes_as_coded (effects (snd ?run))"
    by (simp add: list_all_iff)
  then show ?thesis
    by (simp add: sample_run owner_read_only_def owner_rwx_others_rx_def)
qed

subsection \<open>Empty payloads\<close>

lemma render_configs_mono:
  "render_configs env pod cfs w = (r, w') \<Longrightarrow> set (effects w) \<subseteq> set (effects w')"
  by (drule render_configs_frame) auto

lemma render_pods_mono:
  "render_pods env ps w = (r, w') \<Longrightarrow> set (effects w) \<subseteq> set (effects w')"
  by (drule render_pods_frame) auto

lemma apiServerConfigs_filenames:
  "map filename (apiServerConfigs env (Some n) (Some z)) =
     (if Config_authn n \<noteq> [] then [''authentication-config.yaml''] else []) @
     (if Config_authz z \<noteq> [] then [''authorization-config.yaml''] else [])"
  by (simp add: apiServerConfigs_def)

lemma admission_empty:
  "Config_admission a = [] \<Longrightarrow>
   admissionControlConfig env a () =
     ([], Inr (AdmissionConfigurationObj
        \<lparr>Kind = ''AdmissionConfiguration'', APIVersion = ''apiserver.config.k8s.io/v1'',
         Plugins = Some []\<rparr>))"
  by (simp add: admissionControlConfig_def SchemeGroupVersion_String_def)

lemma admission_file_written:
  assumes found: "get_AdmissionControlConfig inp = Found a" "get_AuditPolicyConfig inp = Found b"
      "get_StructuredAuthenticationConfig inp = Found n"
      "get_StructuredAuthorizationConfig inp = Found z" "get_SchedulerConfig inp = Found s"
    and empty: "Config_admission (TypedSpec a) = []"
    and mkdir: "os_error env (effects w) (MkdirAll (KubernetesAPIServerConfigDir c) 493) = None"
    and enc: "serializer_Encode env (AdmissionConfigurationObj
        \<lparr>Kind = ''AdmissionConfiguration'', APIVersion = ''apiserver.config.k8s.io/v1'',
         Plugins = Some []\<rparr>) = Inr buf"
    and wr: "os_error env (effects w @ [MkdirAll (KubernetesAPIServerConfigDir c) 493])
        (WriteFile (filepath_Join [KubernetesAPIServerConfigDir c,
           ''admission-control-config.yaml'']) buf 256) = None"
  shows "WriteFile (filepath_Join [KubernetesAPIServerConfigDir c,
           ''admission-control-config.yaml'']) buf 256
         \<in> set (effects (snd (iteration env c inp w)))"
proof -
  let ?D = "KubernetesAPIServerConfigDir c"
  let ?P = "filepath_Join [?D, ''admission-control-config.yaml'']"
  let ?W = "WriteFile ?P buf 256"
  let ?opt = "apiServerConfigs env (Some (TypedSpec n)) (Some (TypedSpec z))"
  let ?audit = "\<lparr>filename = ''auditpolicy.yaml'', f = auditPolicyConfig env (TypedSpec b)\<rparr>"
  let ?adm = "\<lparr>filename = ''admission-control-config.yaml'',
               f = admissionControlConfig env (TypedSpec a)\<rparr>"
  let ?api = "\<lparr>name = ''kube-apiserver'', directory = ?D,
       uid = KubernetesAPIServerRunUser c, gid = KubernetesAPIServerRunGroup c,
       configs = [?adm, ?audit] @ ?opt\<rparr>"
  let ?sched = "\<lparr>name = ''kube-scheduler'', directory = KubernetesSchedulerConfigDir c,
       uid = KubernetesSchedulerRunUser c, gid = KubernetesSchedulerRunGroup c,
       configs = [\<lparr>filename = ''scheduler-config.yaml'',
                   f = schedulerConfig env c (TypedSpec s)\<rparr>]\<rparr>"
  let ?ps = "pods env c (TypedSpec a) (TypedSpec b) ?opt (TypedSpec s)"
  let ?w1 = "w\<lparr>effects := effects w @ [MkdirAll ?D 493]\<rparr>"
  have ps: "?ps = [?api, ?sched]" by (simp add: pods_def)
  obtain r3 w3 where c3: "render_configs env ?api (?adm # ?audit # ?opt) ?w1 = (r3, w3)"
    by (cases "render_configs env ?api (?adm # ?audit # ?opt) ?w1")
  have in3: "?W \<in> set (effects w3)"
  proof -
    from render_configs_step [OF c3] show ?thesis
    proof
      assume "\<exists>k buf'. r3 \<noteq> None \<and> w3 = ?w1\<lparr>effects := effects ?w1 @ fst (f ?adm ()) @
          take k [WriteFile (filepath_Join [directory ?api, filename ?adm]) buf' 256]\<rparr>"
      then have stop: "r3 \<noteq> None" by blast
      obtain r4 w4 where c4: "os_call env (Chown ?P (KubernetesAPIServerRunUser c)
            (KubernetesAPIServerRunGroup c)) (?w1\<lparr>effects := effects ?w1 @ [?W]\<rparr>) = (r4, w4)"
        by (cases "os_call env (Chown ?P (KubernetesAPIServerRunUser c)
            (KubernetesAPIServerRunGroup c)) (?w1\<lparr>effects := effects ?w1 @ [?W]\<rparr>)")
      from os_call_cases [OF c4] show ?thesis
      proof
        assume "\<exists>e. r4 = Some e \<and> os_error env (effects (?w1\<lparr>effects := effects ?w1 @ [?W]\<rparr>))
            (Chown ?P (KubernetesAPIServerRunUser c) (KubernetesAPIServerRunGroup c)) = Some e \<and>
            w4 = ?w1\<lparr>effects := effects ?w1 @ [?W]\<rparr>"
        with c3 c4 empty enc wr have "w3 = ?w1\<lparr>effects := effects ?w1 @ [?W]\<rparr>"
          by (auto simp: admission_empty os_call_def)
        then show ?thesis by simp
      next
        assume a4: "r4 = None \<and> os_error env (effects (?w1\<lparr>effects := effects ?w1 @ [?W]\<rparr>))
            (Chown ?P (KubernetesAPIServerRunUser c) (KubernetesAPIServerRunGroup c)) = None \<and>
            w4 = (?w1\<lparr>effects := effects ?w1 @ [?W]\<rparr>)\<lparr>effects :=
               effects (?w1\<lparr>effects := effects ?w1 @ [?W]\<rparr>) @
               [Chown ?P (KubernetesAPIServerRunUser c) (KubernetesAPIServerRunGroup c)]\<rparr>"
        with c3 c4 empty enc wr have "render_configs env ?api (?audit # ?opt) w4 = (r3, w3)"
          by (auto simp: admission_empty os_call_def)
        from render_configs_mono [OF this] a4 show ?thesis by auto
      qed
    next
      assume "\<exists>obj buf'. snd (f ?adm ()) = Inr obj \<and> serializer_Encode env obj = Inr buf' \<and>
          render_configs env ?api (?audit # ?opt)
            (?w1\<lparr>effects := effects ?w1 @ fst (f ?adm ()) @
               [WriteFile (filepath_Join [directory ?api, filename ?adm]) buf' 256,
                Chown (filepath_Join [directory ?api, filename ?adm]) (uid ?api) (gid ?api)]\<rparr>)
            = (r3, w3)"
      then obtain buf' where "serializer_Encode env (AdmissionConfigurationObj
          \<lparr>Kind = ''AdmissionConfiguration'', APIVersion = ''apiserver.config.k8s.io/v1'',
           Plugins = Some []\<rparr>) = Inr buf'"
        and go: "render_configs env ?api (?audit # ?opt)
            (?w1\<lparr>effects := effects ?w1 @
               [WriteFile ?P buf' 256,
                Chown ?P (KubernetesAPIServerRunUser c) (KubernetesAPIServerRunGroup c)]\<rparr>)
            = (r3, w3)"
        using empty by (auto simp: admission_empty)
      with enc have "buf' = buf" by simp
      with render_configs_mono [OF go] show ?thesis by auto
    qed
  qed
  obtain r1 w1' where c1: "render_pods env ?ps w = (r1, w1')"
    by (cases "render_pods env ?ps w")
  have in1: "?W \<in> set (effects w1')"
  proof (cases r3)
    case (Some err)
    with c1 c3 mkdir ps have "w1' = w3" by (simp add: os_call_def)
    with in3 show ?thesis by simp
  next
    case None
    with c1 c3 mkdir ps have "render_pods env [?sched] w3 = (r1, w1')"
      by (simp add: os_call_def)
    from render_pods_mono [OF this] in3 show ?thesis by auto
  qed
  have "effects (snd (iteration env c inp w)) = effects w1'"
  proof (cases r1)
    case (Some err)
    with found c1 show ?thesis by (simp add: iteration_def)
  next
    case None
    with found c1 show ?thesis
      by (auto simp: iteration_def dest: WriterModify_effects split: prod.splits option.splits)
  qed
  with in1 show ?thesis by simp
qed

text \<open>
  Claim C10. For an empty plugin list the admission converter succeeds, and the document
  it returns has a plugin list that is present and empty. In an iteration that gets as far
  as rendering (all five inputs found) with such an admission payload, once the directory
  is created, the document is encoded and the write is accepted, the file
  \<open>admission-control-config.yaml\<close> is among the files written. An optional resource is
  treated otherwise: its file is in the list of files to render only when its payload is
  not empty.
\<close>

theorem empty_admission_rendered:
  "admissionControlConfig env \<lparr>Config_admission = []\<rparr> () =
     ([], Inr (AdmissionConfigurationObj
        \<lparr>Kind = ''AdmissionConfiguration'', APIVersion = ''apiserver.config.k8s.io/v1'',
         Plugins = Some []\<rparr>))
   \<and> (get_AdmissionControlConfig inp = Found a \<and> get_AuditPolicyConfig inp = Found b \<and>
      get_StructuredAuthenticationConfig inp = Found n \<and>
      get_StructuredAuthorizationConfig inp = Found z \<and> get_SchedulerConfig inp = Found s \<and>
      Config_admission (TypedSpec a) = [] \<and>
      os_error env (effects w) (MkdirAll (KubernetesAPIServerConfigDir c) 493) = None \<and>
      serializer_Encode env (AdmissionConfigurationObj
        \<lparr>Kind = ''AdmissionConfiguration'', APIVersion = ''apiserver.config.k8s.io/v1'',
         Plugins = Some []\<rparr>) = Inr buf \<and>
      os_error env (effects w @ [MkdirAll (KubernetesAPIServerConfigDir c) 493])
        (WriteFile (filepath_Join [KubernetesAPIServerConfigDir c,
           ''admission-control-config.yaml'']) buf 256) = None
      \<longrightarrow> WriteFile (filepath_Join [KubernetesAPIServerConfigDir c,
              ''admission-control-config.yaml'']) buf 256
            \<in> set (effects (snd (iteration env c inp w))))
   \<and> map filename (apiServerConfigs env (Some n') (Some z')) =
       (if Config_authn n' \<noteq> [] then [''authentication-config.yaml''] else []) @
       (if Config_authz z' \<noteq> [] then [''authorization-config.yaml''] else [])"
  using admission_file_written [of inp a b n z s env w c buf]
  by (simp add: admission_empty apiServerConfigs_filenames)

lemma sample_run_empty:
  "effects (snd (iteration sample_env sample_constants sample_inputs_empty world0)) =
        [MkdirAll ''/system/config/kubernetes/kube-apiserver'' 493,
         WriteFile ''/system/config/kubernetes/kube-apiserver/admission-control-config.yaml''
           ''apiVersion: apiserver.config.k8s.io/v1 kind: AdmissionConfiguration'' 256,
         Chown ''/system/config/kubernetes/kube-apiserver/admission-control-config.yaml''
           65534 65534,
         WriteFile ''/system/config/kubernetes/kube-apiserver/auditpolicy.yaml''
           ''apiVersion: audit.k8s.io/v1 kind: Policy'' 256,
         Chown ''/system/config/kubernetes/kube-apiserver/auditpolicy.yaml'' 65534 65534,
         MkdirAll ''/system/config/kubernetes/kube-scheduler'' 493,
         WriteFile ''/system/config/kubernetes/kube-scheduler/scheduler-config.yaml''
           ''apiVersion: kubescheduler.config.k8s.io/v1 kind: KubeSchedulerConfiguration''
           256,
         Chown ''/system/config/kubernetes/kube-scheduler/scheduler-config.yaml''
           65536 65536]"
  by (simp add: sample_inputs_empty_def loop_unfold converter_unfold sample_unfold sample_paths)

theorem empty_admission_rendered_witness:
  "Config_admission (TypedSpec \<lparr>TypedSpec = \<lparr>Config_admission = []\<rparr>, Version_String = ''4''\<rparr>)
     = []
   \<and> WriteFile ''/system/config/kubernetes/kube-apiserver/admission-control-config.yaml''
       ''apiVersion: apiserver.config.k8s.io/v1 kind: AdmissionConfiguration'' 256
     \<in> set (effects (snd (iteration sample_env sample_constants sample_inputs_empty world0)))
   \<and> map filename (apiServerConfigs sample_env (Some \<lparr>Config_authn = []\<rparr>)
         (Some \<lparr>Config_authz = []\<rparr>)) = []
   \<and> map filename (apiServerConfigs sample_env (Some (TypedSpec sample_authn))
         (Some (TypedSpec sample_authz)))
       = [''authentication-config.yaml'', ''authorization-config.yaml'']"
  using empty_admission_rendered [where env = sample_env and c = sample_constants
      and inp = sample_inputs_empty and w = world0
      and a = "\<lparr>TypedSpec = \<lparr>Config_admission = []\<rparr>, Version_String = ''4''\<rparr>"
      and buf = "''apiVersion: apiserver.config.k8s.io/v1 kind: AdmissionConfiguration''"
      and n' = "\<lparr>Config_authn = []\<rparr>" and z' = "\<lparr>Config_authz = []\<rparr>"]
    empty_admission_rendered [where env = sample_env and n' = "TypedSpec sample_authn"
      and z' = "TypedSpec sample_authz"]
  by (simp add: sample_run_empty sample_authn_def sample_authz_def)

end
